theory Spec2Isabelle
  imports Complex_Main "HOL-Library.Sublist"
begin

section \<open>The training loop of dnadiffusion/utils/train_util.py\<close>

text \<open>
  The class \<open>TrainLoop\<close> is embedded by explicit state passing. The attributes that are
  fixed by the constructor are the record \<open>config\<close>, the attributes that the methods
  assign are the record \<open>train_state\<close>, and the calls made to the collaborators (the
  accelerator, the sampler, the metric function, the checkpoint writer, the LoRA saver)
  are collected in a trace of events. The exceptions that the methods raise on their own
  (a missing key, a division by zero, a missing attribute, a missing file, a call of
  \<open>None\<close>) are values of \<open>py_error\<close>. The collaborators whose code is outside of the
  class are the fields of the record \<open>env\<close>; where a field returns an error the
  collaborator can fail, and a collaborator without such a result (the forward pass, the
  optimizer step, the sampler, the metric function, the checkpoint writer, the LoRA
  saver) is taken to return. Barriers (\<open>wait_for_everyone\<close>), the \<open>autocast\<close> scope
  and the prints of constants to standard output have no effect on the state or on the
  collaborators and are left out of the trace.
\<close>

subsection \<open>Data\<close>

type_synonym tensor = "real list"

type_synonym state_dict = "(string \<times> tensor) list"

record nn_module =
  params :: state_dict
  training :: bool
  requires_grad :: bool

datatype py_error =
    ZeroDivisionError
  | KeyError string
  | AttributeError string
  | FileNotFoundError string
  | RuntimeError string
  | OverflowError
  | TypeError string

datatype 'o ckval = StateDict state_dict | OptState 'o | EpochNum int

type_synonym 'o checkpoint = "(string \<times> 'o ckval) list"

record log_record =
  log_train :: int
  log_test :: int
  log_shuffle :: int
  log_loss :: real
  log_epoch :: int
  log_seq_similarity :: int

datatype 't kwarg = StrArg string | TableArg 't

datatype ('o, 'd, 't) event =
    Prepare
  | InitTrackers string
  | ModelTrain
  | ModelEval
  | TrainStep nat int
  | Log log_record int
  | CreateSample 'd 'd "int option" int int
  | PrintTable 't
  | MetricCall "(string \<times> 't kwarg) list"
  | TorchSave string "'o checkpoint"
  | Mkdir string
  | LoraSave nn_module string

record ema_obj =
  beta :: real

record 'd config =
  encode_data :: "string \<rightharpoonup> 'd"
  learning_rate :: real
  is_main_process :: bool
  epochs :: int
  log_step_show :: int
  sample_epoch :: int
  save_epoch :: int
  model_name :: string
  image_size :: int
  num_sampling_to_compare_cells :: int
  metric_function :: bool
  selective_sampling_number :: "int option"
  save_lora_function :: bool
  lora_path :: string
  lora_save_epoch :: int

record 'o train_state =
  model :: nn_module
  optimizer :: 'o
  ema :: "ema_obj option"
  ema_model :: "nn_module option"
  train_kl :: int
  test_kl :: int
  shuffle_kl :: int
  seq_similarity :: int
  start_epoch :: int
  global_step :: "int option"
  files :: "string \<rightharpoonup> 'o checkpoint"

record ('b, 'o, 'd, 't) env =
  adam :: "state_dict \<Rightarrow> real \<Rightarrow> 'o"
  forward_loss :: "nn_module \<Rightarrow> 'b \<Rightarrow> real"
  optimizer_step :: "nn_module \<Rightarrow> 'o \<Rightarrow> 'b \<Rightarrow> nn_module \<times> 'o"
  dl_len :: nat
  dl_batch :: "int \<Rightarrow> nat \<Rightarrow> 'b"
  create_sample :: "nn_module \<Rightarrow> 'd \<Rightarrow> 'd \<Rightarrow> int option \<Rightarrow> int \<Rightarrow> int \<Rightarrow> 't"
  int_truediv10 :: "int \<Rightarrow> py_error + int"
  inner_model :: "nn_module \<Rightarrow> nn_module option"
  mkdir :: "string \<Rightarrow> py_error option"
  optimizer_load_error :: "'o \<Rightarrow> 'o \<Rightarrow> py_error option"

text \<open>
  In \<open>config\<close>, \<open>metric_function\<close> and \<open>save_lora_function\<close> say whether the callable
  was supplied (\<open>None\<close> otherwise) and \<open>is_main_process\<close> is the accelerator's predicate.
  In \<open>env\<close>, \<open>dl_len\<close> is \<open>len(self.train_dl)\<close> and \<open>dl_batch e i\<close> is the batch that the
  shuffling loader yields at index \<open>i\<close> in epoch \<open>e\<close>; \<open>optimizer_step\<close> is
  \<open>zero_grad\<close>, \<open>backward\<close> and \<open>step\<close> together. \<open>int_truediv10 n\<close> is
  \<open>int(n / 10)\<close>, a division in floating point that rounds for large \<open>n\<close> and raises
  \<open>OverflowError\<close> for huge \<open>n\<close>; \<open>inner_model m\<close> is the attribute \<open>m.model\<close> (\<open>None\<close>
  when the module has no such attribute); \<open>mkdir p\<close> is
  \<open>Path(p).mkdir(parents=True, exist_ok=True)\<close>, with the error it raises if any;
  \<open>optimizer_load_error cur new\<close> is the error that \<open>load_state_dict\<close> of the optimizer
  in state \<open>cur\<close> raises on the saved state \<open>new\<close>, if any (it raises when the parameter
  groups do not match), and without an error the optimizer state is \<open>new\<close>. The field
  \<open>files\<close> of the state is the part of the file system that \<open>torch.save\<close> writes and
  \<open>torch.load\<close> reads.
\<close>

type_synonym ('e, 'a) traced = "'e list \<times> (py_error + 'a)"

subsection \<open>Sequencing of fallible, traced steps\<close>

definition bind_tr :: "('e, 'a) traced \<Rightarrow> ('a \<Rightarrow> ('e, 'c) traced) \<Rightarrow> ('e, 'c) traced" where
  "bind_tr m f =
     (case m of
        (tr, Inl e) \<Rightarrow> (tr, Inl e)
      | (tr, Inr s) \<Rightarrow> (case f s of (tr', r) \<Rightarrow> (tr @ tr', r)))"

fun for_each :: "('x \<Rightarrow> 's \<Rightarrow> ('e, 's) traced) \<Rightarrow> 'x list \<Rightarrow> 's \<Rightarrow> ('e, 's) traced" where
  "for_each f [] s = ([], Inr s)"
| "for_each f (x # xs) s = bind_tr (f x s) (for_each f xs)"

subsection \<open>Python primitives\<close>

definition py_mod :: "int \<Rightarrow> int \<Rightarrow> py_error + int" where
  "py_mod a b = (if b = 0 then Inl ZeroDivisionError else Inr (a mod b))"

definition py_getitem :: "(string \<rightharpoonup> 'v) \<Rightarrow> string \<Rightarrow> py_error + 'v" where
  "py_getitem d k = (case d k of None \<Rightarrow> Inl (KeyError k) | Some v \<Rightarrow> Inr v)"

definition digit_char :: "nat \<Rightarrow> char" where
  "digit_char d = ''0123456789'' ! d"

fun str_nat :: "nat \<Rightarrow> string" where
  "str_nat n = (if n < 10 then [digit_char n] else str_nat (n div 10) @ [digit_char (n mod 10)])"

declare str_nat.simps [simp del]

definition str_int :: "int \<Rightarrow> string" where
  "str_int i = (if i < 0 then CHR ''-'' # str_nat (nat (- i)) else str_nat (nat i))"

text \<open>\<open>s.replace(old, new)\<close> for a non-empty \<open>old\<close>: the occurrences are found from the
  left and do not overlap.\<close>

function str_replace :: "string \<Rightarrow> string \<Rightarrow> string \<Rightarrow> string" where
  "str_replace old new [] = []"
| "str_replace old new (c # cs) =
     (if old \<noteq> [] \<and> take (length old) (c # cs) = old
      then new @ str_replace old new (drop (length old) (c # cs))
      else c # str_replace old new cs)"
  by pat_completeness auto
termination
  by (relation "measure (\<lambda>(old, new, s). length s)") (auto simp: neq_Nil_conv)

subsection \<open>Collaborators outside of the class\<close>

text \<open>
  \<open>torch.nn.Module.load_state_dict(state_dict, strict)\<close>, by its documented contract:
  every entry of \<open>state_dict\<close> whose key names a parameter of the module is copied into
  it; a key of the module that \<open>state_dict\<close> lacks (missing) or a key of \<open>state_dict\<close>
  that the module lacks (unexpected) is an error only when \<open>strict\<close>; an entry whose shape
  differs from the parameter's is an error in both modes. The shape of a tensor is its
  length here.
\<close>

definition keys_of :: "state_dict \<Rightarrow> string list" where
  "keys_of sd = map fst sd"

definition missing_keys :: "nn_module \<Rightarrow> state_dict \<Rightarrow> string list" where
  "missing_keys m sd = filter (\<lambda>k. k \<notin> set (keys_of sd)) (keys_of (params m))"

definition unexpected_keys :: "nn_module \<Rightarrow> state_dict \<Rightarrow> string list" where
  "unexpected_keys m sd = filter (\<lambda>k. k \<notin> set (keys_of (params m))) (keys_of sd)"

definition size_mismatches :: "nn_module \<Rightarrow> state_dict \<Rightarrow> string list" where
  "size_mismatches m sd =
     map fst (filter (\<lambda>(k, v). case map_of sd k of None \<Rightarrow> False | Some v' \<Rightarrow> length v' \<noteq> length v)
       (params m))"

definition load_state_dict :: "bool \<Rightarrow> nn_module \<Rightarrow> state_dict \<Rightarrow> py_error + nn_module" where
  "load_state_dict strict m sd =
     (if size_mismatches m sd \<noteq> [] then Inl (RuntimeError ''size mismatch'')
      else if strict \<and> (missing_keys m sd \<noteq> [] \<or> unexpected_keys m sd \<noteq> [])
      then Inl (RuntimeError ''missing or unexpected keys'')
      else Inr (m\<lparr>params :=
             map (\<lambda>(k, v). case map_of sd k of None \<Rightarrow> (k, v) | Some v' \<Rightarrow> (k, v')) (params m)\<rparr>))"

text \<open>
  Modelled from the spec: the class \<open>EMA\<close> of \<open>dnadiffusion.utils.utils\<close> and its method
  \<open>step_ema\<close> are not among the sources. The spec gives the update: for each parameter
  pair (shadow, current), shadow becomes decay * shadow + (1 - decay) * current, per
  tensor, on every step, with no warm-up. Parameters are paired by position; the
  arithmetic is the exact one of the reals, not the rounded one of floats.
\<close>

definition ema_tensor :: "real \<Rightarrow> tensor \<Rightarrow> tensor \<Rightarrow> tensor" where
  "ema_tensor d s c = map2 (\<lambda>x y. d * x + (1 - d) * y) s c"

fun update_model_average :: "real \<Rightarrow> state_dict \<Rightarrow> state_dict \<Rightarrow> state_dict" where
  "update_model_average d ((k, s) # sh) ((k', c) # cur) =
     (k, ema_tensor d s c) # update_model_average d sh cur"
| "update_model_average d sh [] = sh"
| "update_model_average d [] cur = []"

definition step_ema :: "ema_obj \<Rightarrow> nn_module \<Rightarrow> nn_module \<Rightarrow> nn_module" where
  "step_ema e sh cur = sh\<lparr>params := update_model_average (beta e) (params sh) (params cur)\<rparr>"

subsection \<open>\<open>TrainLoop.__init__\<close>\<close>

definition init ::
  "('b, 'o, 'd, 't) env \<Rightarrow> 'd config \<Rightarrow> nn_module \<Rightarrow> (string \<rightharpoonup> 'o checkpoint)
     \<Rightarrow> py_error + 'o train_state" where
  "init env cfg m fs =
     (let st = \<lparr>model = m,
                optimizer = adam env (params m) (learning_rate cfg),
                ema = (if is_main_process cfg then Some \<lparr>beta = 0.995\<rparr> else None),
                ema_model = (if is_main_process cfg
                             then Some (m\<lparr>training := False, requires_grad := False\<rparr>) else None),
                train_kl = 1, test_kl = 1, shuffle_kl = 1,
                seq_similarity = 1,
                start_epoch = 1,
                global_step = None,
                files = fs\<rparr>
      in case py_getitem (encode_data cfg) ''X_train'' of
           Inl e \<Rightarrow> Inl e
         | Inr _ \<Rightarrow>
             (case py_getitem (encode_data cfg) ''x_train_cell_type'' of
                Inl e \<Rightarrow> Inl e
              | Inr _ \<Rightarrow> Inr st))"

subsection \<open>\<open>train_step\<close> and \<open>log_step\<close>\<close>

definition train_step ::
  "('b, 'o, 'd, 't) env \<Rightarrow> 'd config \<Rightarrow> 'o train_state \<Rightarrow> 'b \<Rightarrow> py_error + ('o train_state \<times> real)" where
  "train_step env cfg st batch =
     (let loss = forward_loss env (model st) batch;
          (m', o') = optimizer_step env (model st) (optimizer st) batch;
          st1 = st\<lparr>model := m', optimizer := o'\<rparr>
      in if is_main_process cfg
         then (case ema st1 of
                 None \<Rightarrow> Inl (AttributeError ''ema'')
               | Some e \<Rightarrow>
                   (case ema_model st1 of
                      None \<Rightarrow> Inl (AttributeError ''ema_model'')
                    | Some sh \<Rightarrow> Inr (st1\<lparr>ema_model := Some (step_ema e sh m')\<rparr>, loss)))
         else Inr (st1, loss))"

definition log_step ::
  "'d config \<Rightarrow> 'o train_state \<Rightarrow> real \<Rightarrow> int \<Rightarrow> (('o, 'd, 't) event, 'o train_state) traced" where
  "log_step cfg st loss epoch =
     (if is_main_process cfg
      then (case global_step st of
              None \<Rightarrow> ([], Inl (AttributeError ''global_step''))
            | Some g \<Rightarrow>
                ([Log \<lparr>log_train = train_kl st, log_test = test_kl st, log_shuffle = shuffle_kl st,
                        log_loss = loss, log_epoch = epoch,
                        log_seq_similarity = seq_similarity st\<rparr> g], Inr st))
      else ([], Inr st))"

subsection \<open>\<open>sample\<close>, \<open>save_model\<close>, \<open>save_lora_model\<close>\<close>

definition sample ::
  "('b, 'o, 'd, 't) env \<Rightarrow> 'd config \<Rightarrow> 'o train_state \<Rightarrow> (('o, 'd, 't) event, 'o train_state) traced" where
  "sample env cfg st =
     (let st1 = st\<lparr>model := (model st)\<lparr>training := False\<rparr>\<rparr>
      in case py_getitem (encode_data cfg) ''cell_types'' of
           Inl e \<Rightarrow> ([ModelEval], Inl e)
         | Inr ct \<Rightarrow>
             (case py_getitem (encode_data cfg) ''numeric_to_tag'' of
                Inl e \<Rightarrow> ([ModelEval], Inl e)
              | Inr nt \<Rightarrow>
                  (case int_truediv10 env (num_sampling_to_compare_cells cfg) of
                     Inl e \<Rightarrow> ([ModelEval], Inl e)
                   | Inr n \<Rightarrow>
                       (let synt_df =
                              create_sample env (model st1) nt ct (selective_sampling_number cfg) n 1
                        in ([ModelEval, CreateSample nt ct (selective_sampling_number cfg) n 1,
                             PrintTable synt_df]
                            @ (if metric_function cfg
                               then [MetricCall [(''input_fasta'', StrArg ''synthetic_motifs.fasta'')]]
                               else []),
                            Inr st1)))))"

definition checkpoint_path :: "'d config \<Rightarrow> int \<Rightarrow> string" where
  "checkpoint_path cfg epoch = ''epoch_'' @ str_int epoch @ ''_'' @ model_name cfg @ ''.pt''"

definition save_model ::
  "'d config \<Rightarrow> 'o train_state \<Rightarrow> int \<Rightarrow> (('o, 'd, 't) event, 'o train_state) traced" where
  "save_model cfg st epoch =
     (case ema_model st of
        None \<Rightarrow> ([], Inl (AttributeError ''ema_model''))
      | Some em \<Rightarrow>
          (let checkpoint_dict =
                 [(''model'', StateDict (params (model st))),
                  (''optimizer'', OptState (optimizer st)),
                  (''epoch'', EpochNum epoch),
                  (''ema_model'', StateDict (params em))]
           in ([TorchSave (checkpoint_path cfg epoch) checkpoint_dict],
               Inr (st\<lparr>files := (files st)(checkpoint_path cfg epoch \<mapsto> checkpoint_dict)\<rparr>))))"

definition lora_file_path :: "'d config \<Rightarrow> int \<Rightarrow> string" where
  "lora_file_path cfg epoch =
     (let path_use = (if lora_path cfg = [] then ''.'' else lora_path cfg);
          final_path_name_and_file = path_use @ ''/'' @ str_int epoch @ ''_filepath.pth''
      in str_replace ''//'' ''/'' final_path_name_and_file)"

text \<open>Line 192 makes the directory, which may fail; line 194 evaluates
  \<open>self.model.model\<close>, which raises when the module has no such attribute, then the
  normalised path, then calls the saver, which raises when it is \<open>None\<close>.\<close>

definition save_lora_model ::
  "('b, 'o, 'd, 't) env \<Rightarrow> 'd config \<Rightarrow> 'o train_state \<Rightarrow> int
     \<Rightarrow> (('o, 'd, 't) event, 'o train_state) traced" where
  "save_lora_model env cfg st epoch =
     (let path_use = (if lora_path cfg = [] then ''.'' else lora_path cfg)
      in case mkdir env path_use of
           Some e \<Rightarrow> ([Mkdir path_use], Inl e)
         | None \<Rightarrow>
             (case inner_model env (model st) of
                None \<Rightarrow> ([Mkdir path_use], Inl (AttributeError ''model''))
              | Some im \<Rightarrow>
                  (if save_lora_function cfg
                   then ([Mkdir path_use, LoraSave im (lora_file_path cfg epoch)], Inr st)
                   else ([Mkdir path_use], Inl (TypeError ''NoneType object is not callable'')))))"

subsection \<open>\<open>train_loop\<close>\<close>

text \<open>The body of the loop over the batches (lines 90 to 96): the index \<open>step\<close> and the
  value assigned to \<open>self.global_step\<close> are recorded with the call of \<open>train_step\<close>.\<close>

definition batch_body ::
  "('b, 'o, 'd, 't) env \<Rightarrow> 'd config \<Rightarrow> int \<Rightarrow> nat \<Rightarrow> 'o train_state
     \<Rightarrow> (('o, 'd, 't) event, 'o train_state) traced" where
  "batch_body env cfg epoch step st =
     (let g = epoch * int (dl_len env) + int step;
          st1 = st\<lparr>global_step := Some g\<rparr>
      in case train_step env cfg st1 (dl_batch env epoch step) of
           Inl e \<Rightarrow> ([TrainStep step g], Inl e)
         | Inr (st2, loss) \<Rightarrow>
             (case py_mod g (log_step_show cfg) of
                Inl e \<Rightarrow> ([TrainStep step g], Inl e)
              | Inr r \<Rightarrow>
                  (if r = 0 \<and> is_main_process cfg
                   then bind_tr ([TrainStep step g], Inr st2) (\<lambda>s. log_step cfg s loss epoch)
                   else ([TrainStep step g], Inr st2))))"

definition sampling_phase ::
  "('b, 'o, 'd, 't) env \<Rightarrow> 'd config \<Rightarrow> int \<Rightarrow> 'o train_state
     \<Rightarrow> (('o, 'd, 't) event, 'o train_state) traced" where
  "sampling_phase env cfg epoch st =
     (case py_mod epoch (sample_epoch cfg) of
        Inl e \<Rightarrow> ([], Inl e)
      | Inr r \<Rightarrow> (if r = 0 \<and> is_main_process cfg then sample env cfg st else ([], Inr st)))"

definition saving_phase ::
  "'d config \<Rightarrow> int \<Rightarrow> 'o train_state \<Rightarrow> (('o, 'd, 't) event, 'o train_state) traced" where
  "saving_phase cfg epoch st =
     (case py_mod epoch (save_epoch cfg) of
        Inl e \<Rightarrow> ([], Inl e)
      | Inr r \<Rightarrow> (if r = 0 \<and> is_main_process cfg then save_model cfg st epoch else ([], Inr st)))"

definition lora_phase ::
  "('b, 'o, 'd, 't) env \<Rightarrow> 'd config \<Rightarrow> int \<Rightarrow> 'o train_state
     \<Rightarrow> (('o, 'd, 't) event, 'o train_state) traced" where
  "lora_phase env cfg epoch st =
     (if save_lora_function cfg
      then (case py_mod epoch (lora_save_epoch cfg) of
              Inl e \<Rightarrow> ([], Inl e)
            | Inr r \<Rightarrow>
                (if r = 0 \<and> is_main_process cfg then save_lora_model env cfg st epoch
                 else ([], Inr st)))
      else ([], Inr st))"

text \<open>The body of the loop over the epochs (lines 86 to 109).\<close>

definition train_epoch ::
  "('b, 'o, 'd, 't) env \<Rightarrow> 'd config \<Rightarrow> int \<Rightarrow> 'o train_state
     \<Rightarrow> (('o, 'd, 't) event, 'o train_state) traced" where
  "train_epoch env cfg epoch st =
     bind_tr ([ModelTrain], Inr (st\<lparr>model := (model st)\<lparr>training := True\<rparr>\<rparr>))
       (\<lambda>s1. bind_tr (for_each (batch_body env cfg epoch) [0..<dl_len env] s1)
         (\<lambda>s2. bind_tr (sampling_phase env cfg epoch s2)
           (\<lambda>s3. bind_tr (saving_phase cfg epoch s3)
             (\<lambda>s4. lora_phase env cfg epoch s4))))"

text \<open>In the trace of \<open>train_loop\<close> every event carries the epoch in which it happened
  (\<open>None\<close> before the first epoch).\<close>

definition in_epoch :: "int \<Rightarrow> ('e, 'a) traced \<Rightarrow> (int option \<times> 'e, 'a) traced" where
  "in_epoch epoch m = (map (Pair (Some epoch)) (fst m), snd m)"

definition train_loop ::
  "('b, 'o, 'd, 't) env \<Rightarrow> 'd config \<Rightarrow> 'o train_state
     \<Rightarrow> (int option \<times> ('o, 'd, 't) event, 'o train_state) traced" where
  "train_loop env cfg st =
     bind_tr ((None, Prepare) # (if is_main_process cfg then [(None, InitTrackers ''dnadiffusion'')] else []),
              Inr st)
       (for_each (\<lambda>epoch s. in_epoch epoch (train_epoch env cfg epoch s))
          [start_epoch st..epochs cfg])"

subsection \<open>\<open>load\<close>\<close>

definition ck_state_dict :: "'o checkpoint \<Rightarrow> string \<Rightarrow> py_error + state_dict" where
  "ck_state_dict ck k =
     (case map_of ck k of
        None \<Rightarrow> Inl (KeyError k)
      | Some (StateDict sd) \<Rightarrow> Inr sd
      | Some _ \<Rightarrow> Inl (TypeError k))"

definition ck_optimizer :: "'o checkpoint \<Rightarrow> py_error + 'o" where
  "ck_optimizer ck =
     (case map_of ck ''optimizer'' of
        None \<Rightarrow> Inl (KeyError ''optimizer'')
      | Some (OptState os) \<Rightarrow> Inr os
      | Some _ \<Rightarrow> Inl (TypeError ''optimizer''))"

definition ck_epoch :: "'o checkpoint \<Rightarrow> py_error + int" where
  "ck_epoch ck =
     (case map_of ck ''epoch'' of
        None \<Rightarrow> Inl (KeyError ''epoch'')
      | Some (EpochNum e) \<Rightarrow> Inr e
      | Some _ \<Rightarrow> Inl (TypeError ''epoch''))"

text \<open>The restoring part of \<open>load\<close> (lines 204 to 210). An entry of the checkpoint that
  is not of the kind that the line expects is a \<open>TypeError\<close>.\<close>

definition restore ::
  "('b, 'o, 'd, 't) env \<Rightarrow> 'd config \<Rightarrow> 'o train_state \<Rightarrow> string \<Rightarrow> py_error + 'o train_state" where
  "restore env cfg st path =
     (case files st path of
        None \<Rightarrow> Inl (FileNotFoundError path)
      | Some checkpoint_dict \<Rightarrow>
          (case ck_state_dict checkpoint_dict ''model'' of
             Inl e \<Rightarrow> Inl e
           | Inr sd \<Rightarrow>
          (case load_state_dict False (model st) sd of
             Inl e \<Rightarrow> Inl e
           | Inr m' \<Rightarrow>
          (case ck_optimizer checkpoint_dict of
             Inl e \<Rightarrow> Inl e
           | Inr os \<Rightarrow>
          (case optimizer_load_error env (optimizer st) os of
             Some e \<Rightarrow> Inl e
           | None \<Rightarrow>
          (case ck_epoch checkpoint_dict of
             Inl e \<Rightarrow> Inl e
           | Inr ep \<Rightarrow>
          (let st1 = st\<lparr>model := m', optimizer := os, start_epoch := ep\<rparr>
           in if is_main_process cfg
              then (case ema_model st1 of
                      None \<Rightarrow> Inl (AttributeError ''ema_model'')
                    | Some em \<Rightarrow>
                        (case ck_state_dict checkpoint_dict ''ema_model'' of
                           Inl e \<Rightarrow> Inl e
                         | Inr esd \<Rightarrow>
                             (case load_state_dict True em esd of
                                Inl e \<Rightarrow> Inl e
                              | Inr em' \<Rightarrow> Inr (st1\<lparr>ema_model := Some em'\<rparr>))))
              else Inr st1)))))))"

definition load ::
  "('b, 'o, 'd, 't) env \<Rightarrow> 'd config \<Rightarrow> 'o train_state \<Rightarrow> string \<Rightarrow> bool
     \<Rightarrow> (int option \<times> ('o, 'd, 't) event, 'o train_state) traced" where
  "load env cfg st path start_train =
     (case restore env cfg st path of
        Inl e \<Rightarrow> ([], Inl e)
      | Inr st1 \<Rightarrow> (if start_train then train_loop env cfg st1 else ([], Inr st1)))"

subsection \<open>Observations on traces\<close>

text \<open>The states of the control loop that an event belongs to; \<open>Logging\<close> is the write
  to the telemetry sink.\<close>

datatype phase = Preparing | Training | Logging | Sampling | Saving | ExportingAdapter

fun phase_of :: "('o, 'd, 't) event \<Rightarrow> phase" where
  "phase_of Prepare = Preparing"
| "phase_of (InitTrackers n) = Preparing"
| "phase_of ModelTrain = Training"
| "phase_of (TrainStep i g) = Training"
| "phase_of (Log r g) = Logging"
| "phase_of ModelEval = Sampling"
| "phase_of (CreateSample nt ct grp n w) = Sampling"
| "phase_of (PrintTable t) = Sampling"
| "phase_of (MetricCall kw) = Sampling"
| "phase_of (TorchSave p ck) = Saving"
| "phase_of (Mkdir p) = ExportingAdapter"
| "phase_of (LoraSave m p) = ExportingAdapter"

text \<open>The keyword arguments of the calls of the metric function, in order.\<close>

fun metric_calls :: "('o, 'd, 't) event list \<Rightarrow> (string \<times> 't kwarg) list list" where
  "metric_calls [] = []"
| "metric_calls (MetricCall kw # evs) = kw # metric_calls evs"
| "metric_calls (ev # evs) = metric_calls evs"

subsection \<open>A small concrete run\<close>

definition demo_env :: "(nat, nat, nat, nat) env" where
  "demo_env =
     \<lparr>adam = (\<lambda>sd lr. 0),
      forward_loss = (\<lambda>m b. 0),
      optimizer_step =
        (\<lambda>m os b. (m\<lparr>params := map (\<lambda>(k, v). (k, map (\<lambda>x. x + 1) v)) (params m)\<rparr>, Suc os)),
      dl_len = 2,
      dl_batch = (\<lambda>e i. i),
      create_sample = (\<lambda>m nt ct g n w. nat n),
      int_truediv10 = (\<lambda>n. Inr (n div 10)),
      inner_model = (\<lambda>m. Some m),
      mkdir = (\<lambda>p. None),
      optimizer_load_error = (\<lambda>cur new. None)\<rparr>"

definition demo_cfg :: "nat config" where
  "demo_cfg =
     \<lparr>encode_data = [''X_train'' \<mapsto> 0, ''x_train_cell_type'' \<mapsto> 1,
                      ''cell_types'' \<mapsto> 2, ''numeric_to_tag'' \<mapsto> 3],
      learning_rate = 1 / 10000, is_main_process = True, epochs = 2, log_step_show = 2,
      sample_epoch = 1, save_epoch = 2, model_name = ''m'', image_size = 200,
      num_sampling_to_compare_cells = 1000, metric_function = True,
      selective_sampling_number = None, save_lora_function = True, lora_path = [],
      lora_save_epoch = 2\<rparr>"

definition demo_model :: nn_module where
  "demo_model = \<lparr>params = [(''w'', [1, 2]), (''b'', [0])], training = True, requires_grad = True\<rparr>"

definition demo_state :: "nat train_state" where
  "demo_state =
     \<lparr>model = demo_model, optimizer = 0, ema = Some \<lparr>beta = 0.995\<rparr>,
      ema_model = Some (demo_model\<lparr>training := False, requires_grad := False\<rparr>),
      train_kl = 1, test_kl = 1, shuffle_kl = 1, seq_similarity = 1, start_epoch = 1,
      global_step = None, files = Map.empty\<rparr>"

subsection \<open>Doubled separators in a path\<close>

fun has_dslash :: "string \<Rightarrow> bool" where
  "has_dslash (a # b # cs) = ((a = CHR ''/'' \<and> b = CHR ''/'') \<or> has_dslash (b # cs))"
| "has_dslash [a] = False"
| "has_dslash [] = False"

definition dslash_cfg :: "nat config" where
  "dslash_cfg = demo_cfg\<lparr>lora_path := ''out//''\<rparr>"

text \<open>The values assigned to \<open>self.global_step\<close>, in order, and the values that a run
  of the epochs \<open>es\<close> over \<open>n\<close> batches assigns.\<close>

fun step_values :: "('o, 'd, 't) event list \<Rightarrow> int list" where
  "step_values [] = []"
| "step_values (TrainStep i g # evs) = g # step_values evs"
| "step_values (ev # evs) = step_values evs"

definition run_steps :: "nat \<Rightarrow> int list \<Rightarrow> int list" where
  "run_steps n es = concat (map (\<lambda>e. map (\<lambda>i. e * int n + int i) [0..<n]) es)"

text \<open>A phase fires in epoch \<open>e\<close> when the trace has an event of that phase in that epoch.\<close>

definition fires :: "phase \<Rightarrow> int \<Rightarrow> (int option \<times> ('o, 'd, 't) event) list \<Rightarrow> bool" where
  "fires ph e tr = list_ex (\<lambda>(t, ev). t = Some e \<and> phase_of ev = ph) tr"

text \<open>The guard under which the loop body of epoch \<open>e\<close> can produce an event.\<close>

definition guard_ok :: "'d config \<Rightarrow> int \<Rightarrow> ('o, 'd, 't) event \<Rightarrow> bool" where
  "guard_ok cfg e ev =
     (case phase_of ev of
        Preparing \<Rightarrow> False
      | Training \<Rightarrow> True
      | Logging \<Rightarrow> is_main_process cfg \<and> log_step_show cfg \<noteq> 0
      | Sampling \<Rightarrow> is_main_process cfg \<and> sample_epoch cfg \<noteq> 0 \<and> e mod sample_epoch cfg = 0
      | Saving \<Rightarrow> is_main_process cfg \<and> save_epoch cfg \<noteq> 0 \<and> e mod save_epoch cfg = 0
      | ExportingAdapter \<Rightarrow>
          is_main_process cfg \<and> save_lora_function cfg \<and> lora_save_epoch cfg \<noteq> 0
          \<and> e mod lora_save_epoch cfg = 0)"

text \<open>A result that is not an exception; a configuration and a state with which no step
  of the loop raises, given collaborators that do not fail.\<close>

definition succeeded :: "py_error + 'a \<Rightarrow> bool" where
  "succeeded r = (case r of Inl e \<Rightarrow> False | Inr s \<Rightarrow> True)"

definition config_ok :: "'d config \<Rightarrow> bool" where
  "config_ok cfg =
     (log_step_show cfg \<noteq> 0 \<and> sample_epoch cfg \<noteq> 0 \<and> save_epoch cfg \<noteq> 0
      \<and> (save_lora_function cfg \<longrightarrow> lora_save_epoch cfg \<noteq> 0)
      \<and> (is_main_process cfg \<longrightarrow>
            encode_data cfg ''cell_types'' \<noteq> None \<and> encode_data cfg ''numeric_to_tag'' \<noteq> None))"

definition state_ok :: "'d config \<Rightarrow> 'o train_state \<Rightarrow> bool" where
  "state_ok cfg st = (is_main_process cfg \<longrightarrow> ema st \<noteq> None \<and> ema_model st \<noteq> None)"

text \<open>The concrete run on a process that is not the main one, and the configurations in
  which the three periods are 1 or 2.\<close>

definition worker_cfg :: "nat config" where
  "worker_cfg = demo_cfg\<lparr>is_main_process := False\<rparr>"

definition worker_state :: "nat train_state" where
  "worker_state = demo_state\<lparr>ema := None, ema_model := None\<rparr>"

definition period_cfg :: "bool \<Rightarrow> bool \<Rightarrow> bool \<Rightarrow> nat config" where
  "period_cfg a b c =
     demo_cfg\<lparr>epochs := 1,
       sample_epoch := (if a then 1 else 2),
       save_epoch := (if b then 1 else 2),
       lora_save_epoch := (if c then 1 else 2)\<rparr>"

text \<open>The state after the concrete run saved a checkpoint at epoch 2, and a state whose
  model and EMA shadow model have one parameter more than that checkpoint.\<close>

definition demo_ckpt :: "nat checkpoint" where
  "demo_ckpt =
     [(''model'', StateDict [(''w'', [1, 2]), (''b'', [0])]),
      (''optimizer'', OptState 0),
      (''epoch'', EpochNum 2),
      (''ema_model'', StateDict [(''w'', [1, 2]), (''b'', [0])])]"

definition saved_state :: "nat train_state" where
  "saved_state = demo_state\<lparr>files := [''epoch_2_m.pt'' \<mapsto> demo_ckpt]\<rparr>"

definition grown_model :: nn_module where
  "grown_model =
     \<lparr>params = [(''w'', [7, 7]), (''b'', [7]), (''c'', [9])], training = True, requires_grad = True\<rparr>"

definition grown_state :: "nat train_state" where
  "grown_state =
     saved_state\<lparr>model := grown_model,
       ema_model := Some (grown_model\<lparr>training := False, requires_grad := False\<rparr>)\<rparr>"

section \<open>Properties\<close>

subsection \<open>Construction\<close>

lemma demo_init: "init demo_env demo_cfg demo_model Map.empty = Inr demo_state"
  by (simp add: init_def demo_env_def demo_cfg_def demo_state_def py_getitem_def)

text \<open>
  Claim C9, as stated: after construction the epoch counter, the global step counter and
  the four rolling metrics all hold the sentinel 1. The constructor never assigns
  \<open>global_step\<close>: in the concrete run the attribute does not hold 1 after construction.
\<close>

theorem init_global_step_counterexample:
  "map_sum id global_step (init demo_env demo_cfg demo_model Map.empty) \<noteq> Inr (Some 1)"
  by (simp add: demo_init demo_state_def)

text \<open>
  Claim C9, amended: after a construction that succeeds, the starting epoch is 1 and the
  four rolling metrics (train, test and shuffle divergence, sequence similarity) are 1;
  the global step counter is not set yet (it is first assigned in the loop over the
  batches); on the main process the EMA shadow model has the parameters of the model,
  is in evaluation mode and has gradient tracking disabled, and on any other process
  there is no EMA shadow model.
\<close>

theorem init_bookkeeping:
  assumes "init env cfg m fs = Inr st"
  shows "start_epoch st = 1 \<and> train_kl st = 1 \<and> test_kl st = 1 \<and> shuffle_kl st = 1
         \<and> seq_similarity st = 1 \<and> global_step st = None
         \<and> model st = m
         \<and> ema_model st = (if is_main_process cfg
                            then Some (m\<lparr>training := False, requires_grad := False\<rparr>) else None)
         \<and> (\<forall>em. ema_model st = Some em \<longrightarrow> params em = params m \<and> \<not> requires_grad em)"
  using assms by (auto simp: init_def Let_def split: sum.splits)

theorem init_bookkeeping_witness:
  "init demo_env demo_cfg demo_model Map.empty = Inr demo_state
   \<and> start_epoch demo_state = 1 \<and> global_step demo_state = None
   \<and> ema_model demo_state = Some (demo_model\<lparr>training := False, requires_grad := False\<rparr>)"
  using init_bookkeeping [OF demo_init] demo_init by (simp add: demo_state_def)

subsection \<open>The EMA update of a gradient step\<close>

lemma update_model_average_length:
  "length (update_model_average d sh cur) = length sh"
  by (induction d sh cur rule: update_model_average.induct) simp_all

lemma update_model_average_nth:
  "i < length sh \<Longrightarrow> i < length cur \<Longrightarrow>
   update_model_average d sh cur ! i = (fst (sh ! i), ema_tensor d (snd (sh ! i)) (snd (cur ! i)))"
proof (induction d sh cur arbitrary: i rule: update_model_average.induct)
  case (1 d k s sh k' c cur)
  then show ?case by (cases i) simp_all
qed simp_all

lemma ema_tensor_nth:
  "j < length s \<Longrightarrow> j < length c \<Longrightarrow> ema_tensor d s c ! j = d * s ! j + (1 - d) * c ! j"
  by (simp add: ema_tensor_def)

text \<open>
  Claim C3: on the main process, in any state whose EMA object is the one the constructor
  made (whatever the step counter is: there is no warm-up), a gradient step succeeds and
  leaves every component \<open>j\<close> of every shadow parameter \<open>i\<close> at
  0.995 * shadow + 0.005 * current, where current is the model after the optimizer step;
  the EMA object itself is unchanged, so the same holds at the next step.
\<close>

theorem ema_update_affine:
  assumes "init env cfg m fs = Inr st0"
    and "is_main_process cfg"
    and "ema st = ema st0"
    and "ema_model st = Some sh"
    and "optimizer_step env (model st) (optimizer st) batch = (m', os')"
    and "i < length (params sh)" and "i < length (params m')"
    and "j < length (snd (params sh ! i))" and "j < length (snd (params m' ! i))"
  shows "\<exists>st' loss sh'.
           train_step env cfg st batch = Inr (st', loss)
           \<and> ema st' = ema st \<and> model st' = m'
           \<and> ema_model st' = Some sh'
           \<and> length (params sh') = length (params sh)
           \<and> fst (params sh' ! i) = fst (params sh ! i)
           \<and> snd (params sh' ! i) ! j
               = 0.995 * snd (params sh ! i) ! j + 0.005 * snd (params m' ! i) ! j"
proof -
  from assms(1,2) have e0: "ema st0 = Some \<lparr>beta = 0.995\<rparr>"
    by (auto simp: init_def Let_def split: sum.splits)
  with assms(3) have e: "ema st = Some \<lparr>beta = 0.995\<rparr>" by simp
  let ?sh' = "step_ema \<lparr>beta = 0.995\<rparr> sh m'"
  have ts: "train_step env cfg st batch =
        Inr (st\<lparr>model := m', optimizer := os', ema_model := Some ?sh'\<rparr>, forward_loss env (model st) batch)"
    using assms(2,4,5) e by (simp add: train_step_def Let_def)
  have l: "length (params ?sh') = length (params sh)"
    by (simp add: step_ema_def update_model_average_length)
  have n: "snd (params ?sh' ! i) ! j = 0.995 * snd (params sh ! i) ! j + 0.005 * snd (params m' ! i) ! j"
    using assms(6-9) by (simp add: step_ema_def update_model_average_nth ema_tensor_nth)
  have f: "fst (params ?sh' ! i) = fst (params sh ! i)"
    using assms(6,7) by (simp add: step_ema_def update_model_average_nth)
  show ?thesis
    using ts n f l by simp
qed

theorem ema_update_affine_witness:
  "init demo_env demo_cfg demo_model Map.empty = Inr demo_state
   \<and> is_main_process demo_cfg
   \<and> (\<exists>st' loss sh'. train_step demo_env demo_cfg demo_state 0 = Inr (st', loss)
         \<and> ema_model st' = Some sh'
         \<and> snd (params sh' ! 0) ! 1 = 0.995 * 2 + 0.005 * 3)"
proof -
  have main: "is_main_process demo_cfg" by (simp add: demo_cfg_def)
  have em: "ema_model demo_state = Some (demo_model\<lparr>training := False, requires_grad := False\<rparr>)"
    by (simp add: demo_state_def)
  have os: "optimizer_step demo_env (model demo_state) (optimizer demo_state) 0 =
       (demo_model\<lparr>params := [(''w'', [2, 3]), (''b'', [1])]\<rparr>, Suc 0)"
    by (simp add: demo_env_def demo_state_def demo_model_def)
  from ema_update_affine [OF demo_init main refl em os, of 0 1]
  obtain st' loss sh' where "train_step demo_env demo_cfg demo_state 0 = Inr (st', loss)"
    and "ema_model st' = Some sh'"
    and "snd (params sh' ! 0) ! 1 =
           0.995 * snd (params (demo_model\<lparr>training := False, requires_grad := False\<rparr>) ! 0) ! 1
           + 0.005 * snd (params (demo_model\<lparr>params := [(''w'', [2, 3]), (''b'', [1])]\<rparr>) ! 0) ! 1"
    by (auto simp: demo_model_def)
  then show ?thesis
    using demo_init main by (auto simp: demo_model_def)
qed

subsection \<open>Sampling\<close>

text \<open>
  Claim C10: in every call of \<open>sample\<close>, whatever the collaborators, the configuration
  and the state are, every call of the metric function has the single keyword argument
  \<open>input_fasta = "synthetic_motifs.fasta"\<close>, so the table that the sampler returned is
  never among its arguments; and when the sampling succeeds with a metric function
  configured, the metric function is called exactly once.
\<close>

theorem sample_metric_call:
  "(\<forall>kw \<in> set (metric_calls (fst (sample env cfg st))).
       kw = [(''input_fasta'', StrArg ''synthetic_motifs.fasta'')])
   \<and> (\<forall>st'. snd (sample env cfg st) = Inr st' \<longrightarrow>
         metric_calls (fst (sample env cfg st)) =
           (if metric_function cfg
            then [[(''input_fasta'', StrArg ''synthetic_motifs.fasta'')]] else []))"
  by (auto simp: sample_def Let_def split: sum.splits)

theorem sample_metric_call_witness:
  "snd (sample demo_env demo_cfg demo_state) = Inr (demo_state\<lparr>model := demo_model\<lparr>training := False\<rparr>\<rparr>)
   \<and> metric_calls (fst (sample demo_env demo_cfg demo_state)) =
       [[(''input_fasta'', StrArg ''synthetic_motifs.fasta'')]]"
proof -
  have s: "snd (sample demo_env demo_cfg demo_state) =
             Inr (demo_state\<lparr>model := demo_model\<lparr>training := False\<rparr>\<rparr>)"
    by (simp add: sample_def demo_env_def demo_cfg_def demo_state_def py_getitem_def Let_def)
  have m: "metric_function demo_cfg" by (simp add: demo_cfg_def)
  from sample_metric_call [of demo_env demo_cfg demo_state]
  have "\<forall>st'. snd (sample demo_env demo_cfg demo_state) = Inr st' \<longrightarrow>
         metric_calls (fst (sample demo_env demo_cfg demo_state)) =
           (if metric_function demo_cfg
            then [[(''input_fasta'', StrArg ''synthetic_motifs.fasta'')]] else [])"
    by (rule conjunct2)
  then have "metric_calls (fst (sample demo_env demo_cfg demo_state)) =
           (if metric_function demo_cfg
            then [[(''input_fasta'', StrArg ''synthetic_motifs.fasta'')]] else [])"
    using s by blast
  then have "metric_calls (fst (sample demo_env demo_cfg demo_state)) =
           [[(''input_fasta'', StrArg ''synthetic_motifs.fasta'')]]"
    using m by (simp only: if_True)
  with s show ?thesis by (rule conjI)
qed

subsection \<open>Checkpoints\<close>

text \<open>
  Claim C5: where the EMA shadow model exists (the main process), saving at epoch \<open>E\<close>
  calls the checkpoint writer once, with the path \<open>epoch_{E}_{model_name}.pt\<close> and the
  dictionary of exactly the four entries model, optimizer, epoch (the number \<open>E\<close>) and
  ema_model; the file at that path then holds this dictionary. The path depends on \<open>E\<close>
  and the model name only, so a later save at the same epoch, from any state, replaces
  the file at this path and leaves every other file as it was.
\<close>

theorem save_model_checkpoint:
  assumes "ema_model st = Some em"
  shows "checkpoint_path cfg E = ''epoch_'' @ str_int E @ ''_'' @ model_name cfg @ ''.pt''
     \<and> fst (save_model cfg st E) =
         [TorchSave (checkpoint_path cfg E)
            [(''model'', StateDict (params (model st))),
             (''optimizer'', OptState (optimizer st)),
             (''epoch'', EpochNum E),
             (''ema_model'', StateDict (params em))]]
     \<and> (\<exists>st'. snd (save_model cfg st E) = Inr st'
           \<and> files st' = (files st)(checkpoint_path cfg E \<mapsto>
               [(''model'', StateDict (params (model st))),
                (''optimizer'', OptState (optimizer st)),
                (''epoch'', EpochNum E),
                (''ema_model'', StateDict (params em))])
           \<and> (\<forall>cfg2 st2 em2. model_name cfg2 = model_name cfg \<and> ema_model st2 = Some em2 \<longrightarrow>
                 (\<exists>ck2 st2'. save_model cfg2 st2 E = ([TorchSave (checkpoint_path cfg E) ck2], Inr st2')
                    \<and> files st2' (checkpoint_path cfg E) = Some ck2
                    \<and> (\<forall>q. q \<noteq> checkpoint_path cfg E \<longrightarrow> files st2' q = files st2 q))))"
  using assms by (simp add: save_model_def checkpoint_path_def Let_def)

theorem save_model_checkpoint_witness:
  "ema_model demo_state = Some (demo_model\<lparr>training := False, requires_grad := False\<rparr>)
   \<and> fst (save_model demo_cfg demo_state 500) =
       [TorchSave ''epoch_500_m.pt''
          [(''model'', StateDict [(''w'', [1, 2]), (''b'', [0])]),
           (''optimizer'', OptState 0),
           (''epoch'', EpochNum 500),
           (''ema_model'', StateDict [(''w'', [1, 2]), (''b'', [0])])]]"
proof -
  have em: "ema_model demo_state = Some (demo_model\<lparr>training := False, requires_grad := False\<rparr>)"
    by (simp add: demo_state_def)
  have p: "checkpoint_path demo_cfg 500 = ''epoch_500_m.pt''"
    by (simp add: checkpoint_path_def str_int_def str_nat.simps digit_char_def demo_cfg_def)
  from save_model_checkpoint [OF em, of demo_cfg 500]
  have "fst (save_model demo_cfg demo_state 500) =
         [TorchSave (checkpoint_path demo_cfg 500)
            [(''model'', StateDict (params (model demo_state))),
             (''optimizer'', OptState (optimizer demo_state)),
             (''epoch'', EpochNum 500),
             (''ema_model'', StateDict (params (demo_model\<lparr>training := False, requires_grad := False\<rparr>)))]]"
    by blast
  then show ?thesis
    unfolding p using em by (simp add: demo_state_def demo_model_def)
qed

subsection \<open>The adapter export path\<close>

lemma collapse_Nil: "str_replace ''//'' ''/'' [] = []"
  by simp

lemma collapse_single: "str_replace ''//'' ''/'' [c] = [c]"
  by simp

lemma collapse_double:
  "str_replace ''//'' ''/'' (CHR ''/'' # CHR ''/'' # cs) = CHR ''/'' # str_replace ''//'' ''/'' cs"
  by simp

lemma collapse_other:
  "\<not> (a = CHR ''/'' \<and> b = CHR ''/'') \<Longrightarrow>
   str_replace ''//'' ''/'' (a # b # cs) = a # str_replace ''//'' ''/'' (b # cs)"
  by auto

lemma collapse_no_slash: "CHR ''/'' \<notin> set t \<Longrightarrow> str_replace ''//'' ''/'' t = t"
  by (induction t) auto

lemma collapse_slash_tail:
  "CHR ''/'' \<notin> set t \<Longrightarrow> str_replace ''//'' ''/'' (CHR ''/'' # t) = CHR ''/'' # t"
  by (cases t) (auto simp: collapse_no_slash simp del: str_replace.simps simp add: collapse_other collapse_single)

lemma collapse_join:
  "\<not> has_dslash p \<Longrightarrow> CHR ''/'' \<notin> set t \<Longrightarrow>
   str_replace ''//'' ''/'' (p @ CHR ''/'' # t) =
     (if p \<noteq> [] \<and> last p = CHR ''/'' then p @ t else p @ CHR ''/'' # t)"
proof (induction p rule: has_dslash.induct)
  case (1 a b cs)
  then have "\<not> (a = CHR ''/'' \<and> b = CHR ''/'')" and "\<not> has_dslash (b # cs)" by simp_all
  with 1 show ?case by (simp add: collapse_other del: str_replace.simps)
next
  case (2 a)
  then show ?case
    by (cases "a = CHR ''/''")
      (simp_all add: collapse_double collapse_other collapse_no_slash collapse_slash_tail del: str_replace.simps)
next
  case 3
  then show ?case by (simp add: collapse_slash_tail del: str_replace.simps)
qed

lemma no_slash_no_dslash: "CHR ''/'' \<notin> set t \<Longrightarrow> \<not> has_dslash t"
  by (induction t rule: has_dslash.induct) auto

lemma no_dslash_append:
  "\<not> has_dslash p \<Longrightarrow> CHR ''/'' \<notin> set t \<Longrightarrow> \<not> has_dslash (p @ t)"
proof (induction p rule: has_dslash.induct)
  case (2 a)
  then show ?case by (cases t) (auto simp: no_slash_no_dslash)
qed (auto simp: no_slash_no_dslash)

lemma no_dslash_join:
  "\<not> has_dslash p \<Longrightarrow> p = [] \<or> last p \<noteq> CHR ''/'' \<Longrightarrow> CHR ''/'' \<notin> set t \<Longrightarrow>
   \<not> has_dslash (p @ CHR ''/'' # t)"
proof (induction p rule: has_dslash.induct)
  case (2 a)
  then show ?case by (cases t) (auto simp: no_slash_no_dslash)
next
  case 3
  then show ?case by (cases t) (auto simp: no_slash_no_dslash)
qed auto

lemma digit_char_no_slash: "d < 10 \<Longrightarrow> digit_char d \<noteq> CHR ''/''"
proof -
  assume "d < 10"
  then have "digit_char d \<in> set ''0123456789''"
    unfolding digit_char_def by (intro nth_mem) simp
  then show ?thesis by auto
qed

lemma str_nat_no_slash: "CHR ''/'' \<notin> set (str_nat n)"
proof (induction n rule: str_nat.induct)
  case (1 n)
  show ?case
  proof (cases "n < 10")
    case True
    then show ?thesis using digit_char_no_slash [of n] by (subst str_nat.simps) auto
  next
    case False
    then show ?thesis
      using 1 digit_char_no_slash [of "n mod 10"] by (subst str_nat.simps) auto
  qed
qed

lemma str_int_no_slash: "CHR ''/'' \<notin> set (str_int e)"
  by (simp add: str_int_def str_nat_no_slash)

lemma file_part_no_slash: "CHR ''/'' \<notin> set (str_int e @ ''_filepath.pth'')"
  by (simp add: str_int_no_slash)

text \<open>
  Claim C6, as stated: for every epoch the path handed to the LoRA saver has its doubled
  separators collapsed. The code makes one pass of \<open>replace('//', '/')\<close>, so with
  \<open>lora_path = "out//"\<close> and epoch 7 the saver receives \<open>out//7_filepath.pth\<close>, which
  still has a doubled separator.
\<close>

theorem lora_export_path_counterexample:
  "fst (save_lora_model demo_env dslash_cfg demo_state 7) =
     [Mkdir ''out//'', LoraSave demo_model ''out//7_filepath.pth'']
   \<and> has_dslash ''out//7_filepath.pth''"
  by (simp add: save_lora_model_def lora_file_path_def dslash_cfg_def demo_cfg_def demo_env_def
      demo_state_def str_int_def str_nat.simps digit_char_def)

text \<open>
  Claim C6, amended: for every epoch, every path handed to the LoRA saver is
  \<open>{lora_path or "."}/{epoch}_filepath.pth\<close> after one left-to-right pass that
  replaces each \<open>//\<close> found by \<open>/\<close>, and the saver is called with it whenever the
  directory could be made, the model has the attribute \<open>model\<close> and the saver was
  supplied. For \<open>lora_path = ""\<close> and epoch 7 the path is \<open>./7_filepath.pth\<close>, for
  \<open>lora_path = "out/"\<close> it is \<open>out/7_filepath.pth\<close>. Whenever \<open>lora_path\<close> itself has no
  doubled separator, the path has none either: it is the directory, one separator, and
  the file name.
\<close>

theorem lora_export_path:
  "(\<forall>m p. LoraSave m p \<in> set (fst (save_lora_model env cfg st e)) \<longrightarrow>
       inner_model env (model st) = Some m \<and> p = lora_file_path cfg e)
   \<and> lora_file_path cfg e =
       str_replace ''//'' ''/''
         ((if lora_path cfg = [] then ''.'' else lora_path cfg) @ ''/'' @ str_int e @ ''_filepath.pth'')
   \<and> (mkdir env (if lora_path cfg = [] then ''.'' else lora_path cfg) = None
        \<and> inner_model env (model st) = Some im \<and> save_lora_function cfg \<longrightarrow>
        save_lora_model env cfg st e =
          ([Mkdir (if lora_path cfg = [] then ''.'' else lora_path cfg),
            LoraSave im (lora_file_path cfg e)], Inr st))
   \<and> (lora_path cfg = [] \<longrightarrow> lora_file_path cfg 7 = ''./7_filepath.pth'')
   \<and> (lora_path cfg = ''out/'' \<longrightarrow> lora_file_path cfg 7 = ''out/7_filepath.pth'')
   \<and> (\<not> has_dslash (lora_path cfg) \<longrightarrow>
        \<not> has_dslash (lora_file_path cfg e)
        \<and> lora_file_path cfg e =
            (if lora_path cfg = [] then ''./''
             else if last (lora_path cfg) = CHR ''/'' then lora_path cfg
             else lora_path cfg @ ''/'') @ str_int e @ ''_filepath.pth'')"
proof (intro conjI impI allI)
  fix m p
  assume "LoraSave m p \<in> set (fst (save_lora_model env cfg st e))"
  then show "inner_model env (model st) = Some m" and "p = lora_file_path cfg e"
    by (auto simp: save_lora_model_def Let_def split: option.splits if_splits)
next
  show "lora_file_path cfg e =
     str_replace ''//'' ''/''
       ((if lora_path cfg = [] then ''.'' else lora_path cfg) @ ''/'' @ str_int e @ ''_filepath.pth'')"
    by (simp add: lora_file_path_def Let_def del: str_replace.simps)
next
  assume "mkdir env (if lora_path cfg = [] then ''.'' else lora_path cfg) = None
        \<and> inner_model env (model st) = Some im \<and> save_lora_function cfg"
  then show "save_lora_model env cfg st e =
          ([Mkdir (if lora_path cfg = [] then ''.'' else lora_path cfg),
            LoraSave im (lora_file_path cfg e)], Inr st)"
    by (simp add: save_lora_model_def Let_def)
next
  assume "lora_path cfg = []"
  then show "lora_file_path cfg 7 = ''./7_filepath.pth''"
    by (simp add: lora_file_path_def str_int_def str_nat.simps digit_char_def)
next
  assume "lora_path cfg = ''out/''"
  then show "lora_file_path cfg 7 = ''out/7_filepath.pth''"
    by (simp add: lora_file_path_def str_int_def str_nat.simps digit_char_def)
next
  let ?t = "str_int e @ ''_filepath.pth''"
  have t: "CHR ''/'' \<notin> set ?t" by (rule file_part_no_slash)
  assume nd: "\<not> has_dslash (lora_path cfg)"
  show eq: "lora_file_path cfg e =
            (if lora_path cfg = [] then ''./''
             else if last (lora_path cfg) = CHR ''/'' then lora_path cfg
             else lora_path cfg @ ''/'') @ str_int e @ ''_filepath.pth''"
  proof (cases "lora_path cfg = []")
    case True
    have "\<not> has_dslash ''.''" by simp
    from collapse_join [OF this t] True show ?thesis
      by (simp add: lora_file_path_def del: str_replace.simps)
  next
    case False
    from collapse_join [OF nd t] False show ?thesis
      by (simp add: lora_file_path_def del: str_replace.simps)
  qed
  show "\<not> has_dslash (lora_file_path cfg e)"
  proof (cases "lora_path cfg = []")
    case True
    have "\<not> has_dslash ''.''" by simp
    from no_dslash_join [OF this _ t] True show ?thesis
      unfolding eq by simp
  next
    case False
    show ?thesis
    proof (cases "last (lora_path cfg) = CHR ''/''")
      case True
      with False no_dslash_append [OF nd t] show ?thesis unfolding eq by simp
    next
      case l: False
      with False no_dslash_join [OF nd _ t] show ?thesis unfolding eq by simp
    qed
  qed
qed

theorem lora_export_path_witness:
  "mkdir demo_env ''.'' = None \<and> inner_model demo_env (model demo_state) = Some demo_model
   \<and> save_lora_function demo_cfg \<and> \<not> has_dslash (lora_path demo_cfg)
   \<and> save_lora_model demo_env demo_cfg demo_state 7 =
        ([Mkdir ''.'', LoraSave demo_model ''./7_filepath.pth''], Inr demo_state)
   \<and> \<not> has_dslash ''./7_filepath.pth''"
proof -
  have f: "save_lora_function demo_cfg" by (simp add: demo_cfg_def)
  have p: "lora_path demo_cfg = []" by (simp add: demo_cfg_def)
  then have nd: "\<not> has_dslash (lora_path demo_cfg)" by simp
  have mk: "mkdir demo_env (if lora_path demo_cfg = [] then ''.'' else lora_path demo_cfg) = None"
    by (simp add: demo_env_def)
  have im: "inner_model demo_env (model demo_state) = Some demo_model"
    by (simp add: demo_env_def demo_state_def)
  have s: "str_int 7 = ''7''" by (simp add: str_int_def str_nat.simps digit_char_def)
  from lora_export_path [where env = demo_env and cfg = demo_cfg and st = demo_state and e = 7
      and im = demo_model] f nd mk im
  have a: "save_lora_model demo_env demo_cfg demo_state 7 =
          ([Mkdir (if lora_path demo_cfg = [] then ''.'' else lora_path demo_cfg),
            LoraSave demo_model (lora_file_path demo_cfg 7)], Inr demo_state)"
    and b: "\<not> has_dslash (lora_file_path demo_cfg 7)"
    and c: "lora_file_path demo_cfg 7 =
            (if lora_path demo_cfg = [] then ''./''
             else if last (lora_path demo_cfg) = CHR ''/'' then lora_path demo_cfg
             else lora_path demo_cfg @ ''/'') @ str_int 7 @ ''_filepath.pth''"
    by blast+
  from c have c': "lora_file_path demo_cfg 7 = ''./7_filepath.pth''"
    by (simp add: p s)
  have mk': "mkdir demo_env ''.'' = None" by (simp add: demo_env_def)
  from a b show ?thesis
    unfolding c' using f nd mk' im by (simp only: p if_True simp_thms)
qed

subsection \<open>Traces of the loops\<close>

lemma fst_bind_tr:
  "fst (bind_tr m f) = (case snd m of Inl e \<Rightarrow> fst m | Inr s \<Rightarrow> fst m @ fst (f s))"
  by (cases m) (auto simp: bind_tr_def split: sum.splits prod.splits)

lemma snd_bind_tr:
  "snd (bind_tr m f) = (case snd m of Inl e \<Rightarrow> Inl e | Inr s \<Rightarrow> snd (f s))"
  by (cases m) (auto simp: bind_tr_def split: sum.splits prod.splits)

lemma bind_tr_events:
  "ev \<in> set (fst (bind_tr m f)) \<Longrightarrow>
   ev \<in> set (fst m) \<or> (\<exists>s. snd m = Inr s \<and> ev \<in> set (fst (f s)))"
  by (auto simp: fst_bind_tr split: sum.splits)

lemma bind_tr_success:
  "snd (bind_tr m f) = Inr s' \<Longrightarrow>
   \<exists>s. snd m = Inr s \<and> snd (f s) = Inr s' \<and> fst (bind_tr m f) = fst m @ fst (f s)"
  by (auto simp: fst_bind_tr snd_bind_tr split: sum.splits)

lemma for_each_events:
  "ev \<in> set (fst (for_each f xs s)) \<Longrightarrow> \<exists>x \<in> set xs. \<exists>s1. ev \<in> set (fst (f x s1))"
proof (induction xs arbitrary: s)
  case Nil
  then show ?case by simp
next
  case (Cons x xs)
  from Cons.prems have "ev \<in> set (fst (f x s)) \<or> (\<exists>s1. ev \<in> set (fst (for_each f xs s1)))"
    by (auto dest: bind_tr_events)
  then show ?case using Cons.IH by auto
qed

lemma for_each_success:
  "snd (for_each f xs s) = Inr s' \<Longrightarrow> x \<in> set xs \<Longrightarrow>
   \<exists>s1 s2. snd (f x s1) = Inr s2 \<and> set (fst (f x s1)) \<subseteq> set (fst (for_each f xs s))"
proof (induction xs arbitrary: s)
  case Nil
  then show ?case by simp
next
  case (Cons y ys)
  from Cons.prems(1) obtain s1 where
    a: "snd (f y s) = Inr s1" and b: "snd (for_each f ys s1) = Inr s'"
    and c: "fst (for_each f (y # ys) s) = fst (f y s) @ fst (for_each f ys s1)"
    by (auto dest: bind_tr_success)
  show ?case
  proof (cases "x = y")
    case True
    with a c show ?thesis by auto
  next
    case False
    with Cons.prems(2) have "x \<in> set ys" by simp
    from Cons.IH [OF b this] obtain t1 t2 where
      "snd (f x t1) = Inr t2" "set (fst (f x t1)) \<subseteq> set (fst (for_each f ys s1))" by blast
    with c show ?thesis by auto
  qed
qed

lemma for_each_projection:
  assumes app: "\<And>a b. proj (a @ b) = proj a @ proj b"
    and step: "\<And>x s. x \<in> set xs \<Longrightarrow> prefix (proj (fst (f x s))) (F x)
                 \<and> (\<forall>s'. snd (f x s) = Inr s' \<longrightarrow> proj (fst (f x s)) = F x)"
  shows "prefix (proj (fst (for_each f xs s))) (concat (map F xs))
         \<and> (\<forall>s'. snd (for_each f xs s) = Inr s' \<longrightarrow> proj (fst (for_each f xs s)) = concat (map F xs))"
  using step
proof (induction xs arbitrary: s)
  case Nil
  have "proj [] = []" using app [of "[]" "[]"] by simp
  then show ?case by simp
next
  case (Cons x xs)
  have hx: "prefix (proj (fst (f x s))) (F x)"
    and hx': "\<And>s'. snd (f x s) = Inr s' \<Longrightarrow> proj (fst (f x s)) = F x"
    using Cons.prems [of x s] by auto
  have ih: "\<And>t. prefix (proj (fst (for_each f xs t))) (concat (map F xs))
         \<and> (\<forall>s'. snd (for_each f xs t) = Inr s' \<longrightarrow> proj (fst (for_each f xs t)) = concat (map F xs))"
    using Cons.IH Cons.prems by simp
  show ?case
  proof (cases "snd (f x s)")
    case (Inl e)
    then show ?thesis using hx by (simp add: fst_bind_tr snd_bind_tr)
  next
    case (Inr t)
    then show ?thesis using hx' [OF Inr] ih [of t] by (simp add: fst_bind_tr snd_bind_tr app)
  qed
qed

lemma step_values_append: "step_values (a @ b) = step_values a @ step_values b"
  by (induction a rule: step_values.induct) simp_all





lemma train_step_Inr:
  assumes "train_step env cfg s b = Inr (s', loss)"
  shows "global_step s' = global_step s \<and> ema s' = ema s \<and> start_epoch s' = start_epoch s
         \<and> (is_main_process cfg \<longrightarrow> ema s \<noteq> None \<and> ema_model s \<noteq> None \<and> ema_model s' \<noteq> None)"
proof -
  obtain m' os' where os: "optimizer_step env (model s) (optimizer s) b = (m', os')"
    by (cases "optimizer_step env (model s) (optimizer s) b")
  show ?thesis
  proof (cases "is_main_process cfg")
    case False
    with assms os show ?thesis by (auto simp: train_step_def)
  next
    case True
    with assms os show ?thesis
      by (cases "ema s"; cases "ema_model s") (auto simp: train_step_def)
  qed
qed

lemma train_step_ok:
  assumes "is_main_process cfg \<longrightarrow> ema s \<noteq> None \<and> ema_model s \<noteq> None"
  shows "\<exists>s' loss. train_step env cfg s b = Inr (s', loss)"
proof -
  obtain m' os' where os: "optimizer_step env (model s) (optimizer s) b = (m', os')"
    by (cases "optimizer_step env (model s) (optimizer s) b")
  show ?thesis
  proof (cases "is_main_process cfg")
    case False
    with os show ?thesis by (simp add: train_step_def)
  next
    case True
    with assms os show ?thesis
      by (cases "ema s"; cases "ema_model s") (auto simp: train_step_def)
  qed
qed

text \<open>The three ways in which one pass through the body of the batch loop ends.\<close>

lemma batch_body_cases:
  fixes env :: "('b, 'o, 'd, 't) env"
  defines "g \<equiv> \<lambda>(e :: int) (i :: nat). e * int (dl_len env) + int i"
  shows "(\<exists>err. batch_body env cfg e i s = ([TrainStep i (g e i)], Inl err))
       \<or> (\<exists>s'. batch_body env cfg e i s = ([TrainStep i (g e i)], Inr s')
              \<and> global_step s' = Some (g e i))
       \<or> (\<exists>s' r. batch_body env cfg e i s = ([TrainStep i (g e i), Log r (g e i)], Inr s')
              \<and> global_step s' = Some (g e i) \<and> is_main_process cfg \<and> log_step_show cfg \<noteq> 0)"
proof -
  let ?g = "e * int (dl_len env) + int i"
  let ?s1 = "s\<lparr>global_step := Some ?g\<rparr>"
  show ?thesis
  proof (cases "train_step env cfg ?s1 (dl_batch env e i)")
    case (Inl err)
    then show ?thesis by (simp add: batch_body_def g_def Let_def)
  next
    case (Inr p)
    obtain s2 loss where p: "p = (s2, loss)" by (cases p)
    from train_step_Inr [OF Inr [unfolded p]] have gs: "global_step s2 = Some ?g" by simp
    show ?thesis
    proof (cases "log_step_show cfg = 0")
      case True
      with Inr p show ?thesis by (simp add: batch_body_def g_def py_mod_def Let_def)
    next
      case nz: False
      show ?thesis
      proof (cases "?g mod log_step_show cfg = 0 \<and> is_main_process cfg")
        case True
        with Inr p nz gs show ?thesis
          by (simp add: batch_body_def g_def py_mod_def bind_tr_def log_step_def Let_def)
      next
        case False
        with Inr p nz gs show ?thesis
          by (auto simp: batch_body_def g_def py_mod_def Let_def)
      qed
    qed
  qed
qed

lemma batch_body_events:
  "ev \<in> set (fst (batch_body env cfg e i s)) \<Longrightarrow>
   ev = TrainStep i (e * int (dl_len env) + int i)
   \<or> (phase_of ev = Logging \<and> is_main_process cfg \<and> log_step_show cfg \<noteq> 0)"
  using batch_body_cases [of env cfg e i s] by auto

lemma batch_body_steps:
  "step_values (fst (batch_body env cfg e i s)) = [e * int (dl_len env) + int i]"
  using batch_body_cases [of env cfg e i s] by auto

lemma batch_body_global_step:
  "snd (batch_body env cfg e i s) = Inr s' \<Longrightarrow>
   global_step s' = Some (e * int (dl_len env) + int i)"
  using batch_body_cases [of env cfg e i s] by auto

lemma sample_events: "ev \<in> set (fst (sample env cfg s)) \<Longrightarrow> phase_of ev = Sampling"
  by (auto simp: sample_def Let_def split: sum.splits if_splits)

lemma sample_first: "ModelEval \<in> set (fst (sample env cfg s))"
  by (auto simp: sample_def Let_def split: sum.splits)

lemma sample_steps: "step_values (fst (sample env cfg s)) = []"
  by (auto simp: sample_def Let_def split: sum.splits)

lemma sampling_phase_events:
  "ev \<in> set (fst (sampling_phase env cfg e s)) \<Longrightarrow>
   phase_of ev = Sampling \<and> is_main_process cfg \<and> sample_epoch cfg \<noteq> 0 \<and> e mod sample_epoch cfg = 0"
  by (auto simp: sampling_phase_def py_mod_def split: if_splits dest: sample_events)

lemma sampling_phase_fires:
  "sampling_phase env cfg e s = (tr, Inr s') \<Longrightarrow> is_main_process cfg \<Longrightarrow>
   e mod sample_epoch cfg = 0 \<Longrightarrow> ModelEval \<in> set tr"
  using sample_first [of env cfg s]
  by (auto simp: sampling_phase_def py_mod_def split: if_splits)

lemma sampling_phase_steps: "step_values (fst (sampling_phase env cfg e s)) = []"
  by (auto simp: sampling_phase_def py_mod_def sample_steps split: if_splits)

lemma saving_phase_events:
  "ev \<in> set (fst (saving_phase cfg e s)) \<Longrightarrow>
   phase_of ev = Saving \<and> is_main_process cfg \<and> save_epoch cfg \<noteq> 0 \<and> e mod save_epoch cfg = 0"
  by (auto simp: saving_phase_def py_mod_def save_model_def Let_def split: if_splits option.splits)

lemma saving_phase_fires:
  "saving_phase cfg e s = (tr, Inr s') \<Longrightarrow> is_main_process cfg \<Longrightarrow>
   e mod save_epoch cfg = 0 \<Longrightarrow> \<exists>p ck. TorchSave p ck \<in> set tr"
  by (auto simp: saving_phase_def py_mod_def save_model_def Let_def split: if_splits option.splits)

lemma saving_phase_steps: "step_values (fst (saving_phase cfg e s)) = []"
  by (auto simp: saving_phase_def py_mod_def save_model_def Let_def split: if_splits option.splits)

lemma lora_phase_events:
  "ev \<in> set (fst (lora_phase env cfg e s)) \<Longrightarrow>
   phase_of ev = ExportingAdapter \<and> is_main_process cfg \<and> save_lora_function cfg
   \<and> lora_save_epoch cfg \<noteq> 0 \<and> e mod lora_save_epoch cfg = 0"
  by (auto simp: lora_phase_def py_mod_def save_lora_model_def Let_def split: if_splits option.splits)

lemma lora_phase_fires:
  "lora_phase env cfg e s = (tr, Inr s') \<Longrightarrow> is_main_process cfg \<Longrightarrow> save_lora_function cfg \<Longrightarrow>
   e mod lora_save_epoch cfg = 0 \<Longrightarrow> \<exists>m p. LoraSave m p \<in> set tr"
  by (auto simp: lora_phase_def py_mod_def save_lora_model_def Let_def split: if_splits option.splits)

lemma lora_phase_steps: "step_values (fst (lora_phase env cfg e s)) = []"
  by (auto simp: lora_phase_def py_mod_def save_lora_model_def Let_def split: if_splits option.splits)

subsection \<open>Traces of an epoch and of the control loop\<close>

lemma train_epoch_events:
  assumes "ev \<in> set (fst (train_epoch env cfg e st))"
  shows "guard_ok cfg e ev
         \<and> (\<forall>i g. ev = TrainStep i g \<longrightarrow> g = e * int (dl_len env) + int i \<and> i < dl_len env)"
proof -
  from assms consider
      "ev = ModelTrain"
    | s where "ev \<in> set (fst (for_each (batch_body env cfg e) [0..<dl_len env] s))"
    | s where "ev \<in> set (fst (sampling_phase env cfg e s))"
    | s where "ev \<in> set (fst (saving_phase cfg e s))"
    | s where "ev \<in> set (fst (lora_phase env cfg e s))"
    unfolding train_epoch_def by (fastforce dest!: bind_tr_events)
  then show ?thesis
  proof cases
    case 1
    then show ?thesis by (simp add: guard_ok_def)
  next
    case 2
    then obtain i s1 where "i \<in> set [0..<dl_len env]" "ev \<in> set (fst (batch_body env cfg e i s1))"
      by (blast dest: for_each_events)
    then show ?thesis by (auto simp: guard_ok_def dest!: batch_body_events)
  next
    case 3
    then show ?thesis by (auto simp: guard_ok_def dest!: sampling_phase_events)
  next
    case 4
    then show ?thesis by (auto simp: guard_ok_def dest!: saving_phase_events)
  next
    case 5
    then show ?thesis by (auto simp: guard_ok_def dest!: lora_phase_events)
  qed
qed

lemma train_epoch_success:
  fixes env :: "('b, 'o, 'd, 't) env"
  assumes "snd (train_epoch env cfg e st) = Inr st'"
  shows "\<exists>s1 s2 s3 s4 tb ts tv tl.
           for_each (batch_body env cfg e) [0..<dl_len env] s1 = (tb, Inr s2)
         \<and> sampling_phase env cfg e s2 = (ts, Inr s3)
         \<and> saving_phase cfg e s3 = (tv, Inr s4)
         \<and> lora_phase env cfg e s4 = (tl, Inr st')
         \<and> fst (train_epoch env cfg e st) = ModelTrain # tb @ ts @ tv @ tl"
proof -
  let ?s1 = "st\<lparr>model := (model st)\<lparr>training := True\<rparr>\<rparr>"
  obtain tb r2 where b: "for_each (batch_body env cfg e) [0..<dl_len env] ?s1 = (tb, r2)"
    by (cases "for_each (batch_body env cfg e) [0..<dl_len env] ?s1")
  with assms obtain s2 where r2: "r2 = Inr s2"
    by (cases r2) (auto simp: train_epoch_def bind_tr_def)
  obtain ts r3 where s: "sampling_phase env cfg e s2 = (ts, r3)"
    by (cases "sampling_phase env cfg e s2")
  with assms b r2 obtain s3 where r3: "r3 = Inr s3"
    by (cases r3) (auto simp: train_epoch_def bind_tr_def)
  from assms b r2 s r3 obtain tv r4 where
    v: "saving_phase cfg e s3 = (tv, r4)"
    and rest4: "snd (bind_tr (tv, r4) (\<lambda>s4. lora_phase env cfg e s4)) = Inr st'"
    and tr4: "fst (train_epoch env cfg e st) =
               ModelTrain # tb @ ts @ fst (bind_tr (tv, r4) (\<lambda>s4. lora_phase env cfg e s4))"
    by (cases "saving_phase cfg e s3 :: (('o, 'd, 't) event, 'o train_state) traced")
      (auto simp: train_epoch_def bind_tr_def split: prod.splits)
  from rest4 obtain s4 where r4: "r4 = Inr s4"
    by (cases r4) (auto simp: bind_tr_def)
  from rest4 r4 tr4 obtain tl where
    l: "lora_phase env cfg e s4 = (tl, Inr st')"
    and tr: "fst (train_epoch env cfg e st) = ModelTrain # tb @ ts @ tv @ tl"
    by (cases "lora_phase env cfg e s4 :: (('o, 'd, 't) event, 'o train_state) traced")
      (auto simp: bind_tr_def split: prod.splits)
  from b r2 s r3 v r4 l tr show ?thesis by blast
qed

lemma batch_loop_steps:
  "prefix (step_values (fst (for_each (batch_body env cfg e) xs s)))
          (map (\<lambda>i. e * int (dl_len env) + int i) xs)
   \<and> (\<forall>s'. snd (for_each (batch_body env cfg e) xs s) = Inr s' \<longrightarrow>
         step_values (fst (for_each (batch_body env cfg e) xs s))
           = map (\<lambda>i. e * int (dl_len env) + int i) xs)"
  using for_each_projection [where proj = step_values and f = "batch_body env cfg e"
      and F = "\<lambda>i. [e * int (dl_len env) + int i]" and xs = xs and s = s]
  by (simp add: step_values_append batch_body_steps)

lemma train_epoch_steps:
  "prefix (step_values (fst (train_epoch env cfg e st)))
          (map (\<lambda>i. e * int (dl_len env) + int i) [0..<dl_len env])
   \<and> (\<forall>st'. snd (train_epoch env cfg e st) = Inr st' \<longrightarrow>
         step_values (fst (train_epoch env cfg e st))
           = map (\<lambda>i. e * int (dl_len env) + int i) [0..<dl_len env])"
proof -
  let ?s1 = "st\<lparr>model := (model st)\<lparr>training := True\<rparr>\<rparr>"
  let ?loop = "for_each (batch_body env cfg e) [0..<dl_len env] ?s1"
  note b = batch_loop_steps [of env cfg e "[0..<dl_len env]" ?s1]
  show ?thesis
  proof (cases "snd ?loop")
    case (Inl err)
    then show ?thesis using b
      by (simp add: train_epoch_def fst_bind_tr snd_bind_tr)
  next
    case (Inr s2)
    then show ?thesis using b
      by (simp add: train_epoch_def fst_bind_tr snd_bind_tr step_values_append
          sampling_phase_steps saving_phase_steps lora_phase_steps split: sum.splits)
  qed
qed

lemma run_steps_sorted:
  "sorted_wrt (<) es \<Longrightarrow> sorted_wrt (<) (run_steps n es)"
proof (induction es)
  case Nil
  then show ?case by (simp add: run_steps_def)
next
  case (Cons e es)
  have blk: "sorted_wrt (<) (map (\<lambda>i. e * int n + int i) [0..<n])"
    by (simp add: sorted_wrt_map)
  have cross: "x < y" if "x \<in> set (map (\<lambda>i. e * int n + int i) [0..<n])"
    and "y \<in> set (run_steps n es)" for x y
  proof -
    from that(1) obtain i where i: "i < n" "x = e * int n + int i" by auto
    from that(2) obtain e' j where j: "e' \<in> set es" "y = e' * int n + int j"
      by (auto simp: run_steps_def)
    from Cons.prems j(1) have "e + 1 \<le> e'" by auto
    then have "(e + 1) * int n \<le> e' * int n" by (intro mult_right_mono) simp_all
    with i j show ?thesis by (simp add: algebra_simps)
  qed
  from Cons have "sorted_wrt (<) (run_steps n es)" by simp
  with blk cross show ?case
    unfolding run_steps_def by (simp add: sorted_wrt_append run_steps_def [symmetric])
qed

lemma prefix_sorted_wrt: "prefix xs ys \<Longrightarrow> sorted_wrt P ys \<Longrightarrow> sorted_wrt P xs"
  by (auto simp: prefix_def sorted_wrt_append)

lemma in_epoch_fst: "map snd (fst (in_epoch e m)) = fst m"
  by (simp add: in_epoch_def comp_def)

lemma in_epoch_snd: "snd (in_epoch e m) = snd m"
  by (simp add: in_epoch_def)

lemma train_loop_fst:
  "fst (train_loop env cfg st) =
     ((None, Prepare) # (if is_main_process cfg then [(None, InitTrackers ''dnadiffusion'')] else []))
     @ fst (for_each (\<lambda>epoch s. in_epoch epoch (train_epoch env cfg epoch s))
              [start_epoch st..epochs cfg] st)"
  by (simp add: train_loop_def fst_bind_tr)

lemma train_loop_snd:
  "snd (train_loop env cfg st) =
     snd (for_each (\<lambda>epoch s. in_epoch epoch (train_epoch env cfg epoch s))
              [start_epoch st..epochs cfg] st)"
  by (simp add: train_loop_def snd_bind_tr)

lemma tagged_steps_append:
  "step_values (map snd (a @ b)) = step_values (map snd a) @ step_values (map snd b)"
  by (simp add: step_values_append)

lemma in_epoch_steps:
  "prefix (step_values (map snd (fst (in_epoch e (train_epoch env cfg e s)))))
          (map (\<lambda>i. e * int (dl_len env) + int i) [0..<dl_len env])
   \<and> (\<forall>s'. snd (in_epoch e (train_epoch env cfg e s)) = Inr s' \<longrightarrow>
         step_values (map snd (fst (in_epoch e (train_epoch env cfg e s))))
           = map (\<lambda>i. e * int (dl_len env) + int i) [0..<dl_len env])"
  using train_epoch_steps [of env cfg e s] by (simp add: in_epoch_fst in_epoch_snd)

lemma train_loop_steps:
  "prefix (step_values (map snd (fst (train_loop env cfg st))))
          (run_steps (dl_len env) [start_epoch st..epochs cfg])
   \<and> (\<forall>st'. snd (train_loop env cfg st) = Inr st' \<longrightarrow>
         step_values (map snd (fst (train_loop env cfg st)))
           = run_steps (dl_len env) [start_epoch st..epochs cfg])"
proof -
  let ?f = "\<lambda>epoch s. in_epoch epoch (train_epoch env cfg epoch s)"
  have "prefix (step_values (map snd (fst (for_each ?f [start_epoch st..epochs cfg] st))))
          (concat (map (\<lambda>e. map (\<lambda>i. e * int (dl_len env) + int i) [0..<dl_len env])
             [start_epoch st..epochs cfg]))
   \<and> (\<forall>st'. snd (for_each ?f [start_epoch st..epochs cfg] st) = Inr st' \<longrightarrow>
         step_values (map snd (fst (for_each ?f [start_epoch st..epochs cfg] st)))
           = concat (map (\<lambda>e. map (\<lambda>i. e * int (dl_len env) + int i) [0..<dl_len env])
               [start_epoch st..epochs cfg]))"
    by (rule for_each_projection [where proj = "\<lambda>tr. step_values (map snd tr)"])
      (rule tagged_steps_append, rule in_epoch_steps)
  then show ?thesis
    by (simp add: train_loop_fst train_loop_snd run_steps_def)
qed

lemma train_loop_events:
  assumes "(t, ev) \<in> set (fst (train_loop env cfg st))"
  shows "(t = None \<and> (ev = Prepare \<or> (ev = InitTrackers ''dnadiffusion'' \<and> is_main_process cfg)))
       \<or> (\<exists>e s. t = Some e \<and> start_epoch st \<le> e \<and> e \<le> epochs cfg
             \<and> ev \<in> set (fst (train_epoch env cfg e s)))"
proof -
  let ?f = "\<lambda>epoch s. in_epoch epoch (train_epoch env cfg epoch s)"
  from assms consider
      "t = None \<and> (ev = Prepare \<or> (ev = InitTrackers ''dnadiffusion'' \<and> is_main_process cfg))"
    | "(t, ev) \<in> set (fst (for_each ?f [start_epoch st..epochs cfg] st))"
    by (auto simp: train_loop_fst split: if_splits)
  then show ?thesis
  proof cases
    case 1
    then show ?thesis by simp
  next
    case 2
    then obtain e s where "e \<in> set [start_epoch st..epochs cfg]"
      and "(t, ev) \<in> set (fst (in_epoch e (train_epoch env cfg e s)))"
      by (blast dest: for_each_events)
    then show ?thesis by (auto simp: in_epoch_def)
  qed
qed

lemma train_loop_success:
  assumes "snd (train_loop env cfg st) = Inr st'"
    and "start_epoch st \<le> e" and "e \<le> epochs cfg"
  shows "\<exists>s1 s2. snd (train_epoch env cfg e s1) = Inr s2
           \<and> Pair (Some e) ` set (fst (train_epoch env cfg e s1)) \<subseteq> set (fst (train_loop env cfg st))"
proof -
  let ?f = "\<lambda>epoch s. in_epoch epoch (train_epoch env cfg epoch s)"
  from assms(1) have "snd (for_each ?f [start_epoch st..epochs cfg] st) = Inr st'"
    by (simp add: train_loop_snd)
  moreover from assms(2,3) have "e \<in> set [start_epoch st..epochs cfg]" by simp
  ultimately obtain s1 s2 where "snd (?f e s1) = Inr s2"
    and "set (fst (?f e s1)) \<subseteq> set (fst (for_each ?f [start_epoch st..epochs cfg] st))"
    by (blast dest: for_each_success)
  then have "snd (train_epoch env cfg e s1) = Inr s2"
    and "Pair (Some e) ` set (fst (train_epoch env cfg e s1)) \<subseteq> set (fst (train_loop env cfg st))"
    by (auto simp: in_epoch_def train_loop_fst)
  then show ?thesis by blast
qed

lemma fires_iff: "fires ph e tr \<longleftrightarrow> (\<exists>ev. (Some e, ev) \<in> set tr \<and> phase_of ev = ph)"
  by (auto simp: fires_def list_ex_iff)

lemma train_epoch_fires:
  assumes "snd (train_epoch env cfg e s) = Inr s'" and "is_main_process cfg"
  shows "(e mod sample_epoch cfg = 0 \<longrightarrow> ModelEval \<in> set (fst (train_epoch env cfg e s)))
       \<and> (e mod save_epoch cfg = 0 \<longrightarrow> (\<exists>p ck. TorchSave p ck \<in> set (fst (train_epoch env cfg e s))))
       \<and> (save_lora_function cfg \<and> e mod lora_save_epoch cfg = 0 \<longrightarrow>
            (\<exists>m p. LoraSave m p \<in> set (fst (train_epoch env cfg e s))))"
proof -
  from train_epoch_success [OF assms(1)] obtain s1 s2 s3 s4 tb ts tv tl where
    a: "sampling_phase env cfg e s2 = (ts, Inr s3)"
    and b: "saving_phase cfg e s3 = (tv, Inr s4)"
    and c: "lora_phase env cfg e s4 = (tl, Inr s')"
    and tr: "fst (train_epoch env cfg e s) = ModelTrain # tb @ ts @ tv @ tl"
    by blast
  have 1: "ModelEval \<in> set ts" if "e mod sample_epoch cfg = 0"
    using sampling_phase_fires [OF a assms(2) that] .
  have 2: "\<exists>p ck. TorchSave p ck \<in> set tv" if "e mod save_epoch cfg = 0"
    using saving_phase_fires [OF b assms(2) that] .
  have 3: "\<exists>m p. LoraSave m p \<in> set tl" if "save_lora_function cfg" "e mod lora_save_epoch cfg = 0"
    using lora_phase_fires [OF c assms(2) that] .
  show ?thesis
    unfolding tr using 1 2 3 by (intro conjI impI) (simp, fastforce, fastforce)
qed

lemma control_loop_iff:
  assumes ok: "snd (train_loop env cfg st) = Inr st'"
  shows "(fires Sampling e (fst (train_loop env cfg st)) \<longleftrightarrow>
            start_epoch st \<le> e \<and> e \<le> epochs cfg \<and> is_main_process cfg \<and> e mod sample_epoch cfg = 0)
       \<and> (fires Saving e (fst (train_loop env cfg st)) \<longleftrightarrow>
            start_epoch st \<le> e \<and> e \<le> epochs cfg \<and> is_main_process cfg \<and> e mod save_epoch cfg = 0)
       \<and> (fires ExportingAdapter e (fst (train_loop env cfg st)) \<longleftrightarrow>
            start_epoch st \<le> e \<and> e \<le> epochs cfg \<and> is_main_process cfg \<and> save_lora_function cfg
            \<and> e mod lora_save_epoch cfg = 0)"
proof -
  have only_if: "start_epoch st \<le> e \<and> e \<le> epochs cfg \<and> guard_ok cfg e ev"
    if "(Some e, ev) \<in> set (fst (train_loop env cfg st))" for ev
  proof -
    from train_loop_events [OF that] obtain s where
      "start_epoch st \<le> e" "e \<le> epochs cfg" "ev \<in> set (fst (train_epoch env cfg e s))"
      by auto
    with train_epoch_events [of ev env cfg e s] show ?thesis by simp
  qed
  have "if": "\<exists>s1 s2. snd (train_epoch env cfg e s1) = Inr s2
           \<and> Pair (Some e) ` set (fst (train_epoch env cfg e s1)) \<subseteq> set (fst (train_loop env cfg st))"
    if "start_epoch st \<le> e" "e \<le> epochs cfg"
    using train_loop_success [OF ok that] .
  have 1: "fires Sampling e (fst (train_loop env cfg st)) \<longleftrightarrow>
            start_epoch st \<le> e \<and> e \<le> epochs cfg \<and> is_main_process cfg \<and> e mod sample_epoch cfg = 0"
  proof
    assume "fires Sampling e (fst (train_loop env cfg st))"
    then obtain ev where ev: "(Some e, ev) \<in> set (fst (train_loop env cfg st))"
      and ph: "phase_of ev = Sampling"
      unfolding fires_iff by blast
    from only_if [OF ev] ph show "start_epoch st \<le> e \<and> e \<le> epochs cfg \<and> is_main_process cfg \<and> e mod sample_epoch cfg = 0"
      by (simp add: guard_ok_def)
  next
    assume r: "start_epoch st \<le> e \<and> e \<le> epochs cfg \<and> is_main_process cfg \<and> e mod sample_epoch cfg = 0"
    with "if" obtain s1 s2 where s: "snd (train_epoch env cfg e s1) = Inr s2"
      and sub: "Pair (Some e) ` set (fst (train_epoch env cfg e s1)) \<subseteq> set (fst (train_loop env cfg st))"
      by blast
    from train_epoch_fires [OF s] r have "ModelEval \<in> set (fst (train_epoch env cfg e s1))" by blast
    with sub have "(Some e, ModelEval) \<in> set (fst (train_loop env cfg st))" by blast
    then show "fires Sampling e (fst (train_loop env cfg st))"
      unfolding fires_iff by (intro exI [of _ ModelEval]) simp
  qed
  have 2: "fires Saving e (fst (train_loop env cfg st)) \<longleftrightarrow>
            start_epoch st \<le> e \<and> e \<le> epochs cfg \<and> is_main_process cfg \<and> e mod save_epoch cfg = 0"
  proof
    assume "fires Saving e (fst (train_loop env cfg st))"
    then obtain ev where ev: "(Some e, ev) \<in> set (fst (train_loop env cfg st))"
      and ph: "phase_of ev = Saving"
      unfolding fires_iff by blast
    from only_if [OF ev] ph show "start_epoch st \<le> e \<and> e \<le> epochs cfg \<and> is_main_process cfg \<and> e mod save_epoch cfg = 0"
      by (simp add: guard_ok_def)
  next
    assume r: "start_epoch st \<le> e \<and> e \<le> epochs cfg \<and> is_main_process cfg \<and> e mod save_epoch cfg = 0"
    with "if" obtain s1 s2 where s: "snd (train_epoch env cfg e s1) = Inr s2"
      and sub: "Pair (Some e) ` set (fst (train_epoch env cfg e s1)) \<subseteq> set (fst (train_loop env cfg st))"
      by blast
    from train_epoch_fires [OF s] r obtain p ck where
      "TorchSave p ck \<in> set (fst (train_epoch env cfg e s1))" by blast
    with sub have "(Some e, TorchSave p ck) \<in> set (fst (train_loop env cfg st))" by blast
    then show "fires Saving e (fst (train_loop env cfg st))"
      unfolding fires_iff by (intro exI [of _ "TorchSave p ck"]) simp
  qed
  have 3: "fires ExportingAdapter e (fst (train_loop env cfg st)) \<longleftrightarrow>
            start_epoch st \<le> e \<and> e \<le> epochs cfg \<and> is_main_process cfg \<and> save_lora_function cfg
            \<and> e mod lora_save_epoch cfg = 0"
  proof
    assume "fires ExportingAdapter e (fst (train_loop env cfg st))"
    then obtain ev where ev: "(Some e, ev) \<in> set (fst (train_loop env cfg st))"
      and ph: "phase_of ev = ExportingAdapter"
      unfolding fires_iff by blast
    from only_if [OF ev] ph show "start_epoch st \<le> e \<and> e \<le> epochs cfg \<and> is_main_process cfg \<and> save_lora_function cfg
            \<and> e mod lora_save_epoch cfg = 0"
      by (simp add: guard_ok_def)
  next
    assume r: "start_epoch st \<le> e \<and> e \<le> epochs cfg \<and> is_main_process cfg \<and> save_lora_function cfg
            \<and> e mod lora_save_epoch cfg = 0"
    with "if" obtain s1 s2 where s: "snd (train_epoch env cfg e s1) = Inr s2"
      and sub: "Pair (Some e) ` set (fst (train_epoch env cfg e s1)) \<subseteq> set (fst (train_loop env cfg st))"
      by blast
    from train_epoch_fires [OF s] r obtain m p where
      "LoraSave m p \<in> set (fst (train_epoch env cfg e s1))" by blast
    with sub have "(Some e, LoraSave m p) \<in> set (fst (train_loop env cfg st))" by blast
    then show "fires ExportingAdapter e (fst (train_loop env cfg st))"
      unfolding fires_iff by (intro exI [of _ "LoraSave m p"]) simp
  qed
  from 1 2 3 show ?thesis by blast
qed

lemma control_loop_only_if:
  assumes "fires ph e (fst (train_loop env cfg st))"
  shows "start_epoch st \<le> e \<and> e \<le> epochs cfg
       \<and> (ph = Sampling \<longrightarrow> is_main_process cfg \<and> e mod sample_epoch cfg = 0)
       \<and> (ph = Saving \<longrightarrow> is_main_process cfg \<and> e mod save_epoch cfg = 0)
       \<and> (ph = ExportingAdapter \<longrightarrow>
            is_main_process cfg \<and> save_lora_function cfg \<and> e mod lora_save_epoch cfg = 0)"
proof -
  from assms obtain ev where ev: "(Some e, ev) \<in> set (fst (train_loop env cfg st))"
    and ph: "phase_of ev = ph"
    unfolding fires_iff by blast
  from train_loop_events [OF ev] obtain s where
    r: "start_epoch st \<le> e" "e \<le> epochs cfg" and m: "ev \<in> set (fst (train_epoch env cfg e s))"
    by auto
  from train_epoch_events [OF m] have "guard_ok cfg e ev" by simp
  with ph r show ?thesis by (cases ph) (simp_all add: guard_ok_def)
qed

lemma load_fst:
  "fst (load env cfg st path b) =
     (case restore env cfg st path of
        Inl e \<Rightarrow> []
      | Inr st1 \<Rightarrow> if b then fst (train_loop env cfg st1) else [])"
  by (simp add: load_def split: sum.splits)

lemma train_loop_not_main:
  assumes "\<not> is_main_process cfg" and "(t, ev) \<in> set (fst (train_loop env cfg st))"
  shows "phase_of ev = Preparing \<or> phase_of ev = Training"
proof -
  from train_loop_events [OF assms(2)] consider
      "ev = Prepare" | "ev = InitTrackers ''dnadiffusion''"
    | e s where "ev \<in> set (fst (train_epoch env cfg e s))"
    by auto
  then show ?thesis
  proof cases
    case 3
    from train_epoch_events [OF 3] have "guard_ok cfg e ev" by simp
    with assms(1) show ?thesis
      by (cases "phase_of ev") (simp_all add: guard_ok_def)
  qed simp_all
qed

subsection \<open>Runs that end without an exception\<close>

lemma succeeded_iff: "succeeded r \<longleftrightarrow> (\<exists>s. r = Inr s)"
  by (cases r) (simp_all add: succeeded_def)

lemma init_state_ok: "init env cfg m fs = Inr st \<Longrightarrow> state_ok cfg st"
  by (auto simp: init_def Let_def state_ok_def split: sum.splits)

lemma for_each_invariant:
  assumes "\<And>x s. x \<in> set xs \<Longrightarrow> I s \<Longrightarrow> \<exists>s'. snd (f x s) = Inr s' \<and> I s'"
    and "I s"
  shows "\<exists>s'. snd (for_each f xs s) = Inr s' \<and> I s'"
  using assms
proof (induction xs arbitrary: s)
  case Nil
  then show ?case by simp
next
  case (Cons x xs)
  from Cons.prems(1) [of x s] Cons.prems(2) obtain s1 where
    s1: "snd (f x s) = Inr s1" "I s1" by auto
  from Cons.IH [of s1] Cons.prems(1) s1(2) obtain s' where
    "snd (for_each f xs s1) = Inr s'" "I s'" by auto
  with s1 show ?case by (simp add: snd_bind_tr)
qed

lemma batch_body_ok:
  assumes nz: "log_step_show cfg \<noteq> 0" and ok: "state_ok cfg s"
  shows "\<exists>s'. snd (batch_body env cfg e i s) = Inr s' \<and> state_ok cfg s'"
proof -
  let ?g = "e * int (dl_len env) + int i"
  let ?s1 = "s\<lparr>global_step := Some ?g\<rparr>"
  from ok have "is_main_process cfg \<longrightarrow> ema ?s1 \<noteq> None \<and> ema_model ?s1 \<noteq> None"
    by (simp add: state_ok_def)
  from train_step_ok [OF this, of env "dl_batch env e i"] obtain s2 loss where
    ts: "train_step env cfg ?s1 (dl_batch env e i) = Inr (s2, loss)" by blast
  from train_step_Inr [OF ts] have s2: "state_ok cfg s2" and gs: "global_step s2 = Some ?g"
    by (auto simp: state_ok_def)
  show ?thesis
  proof (cases "?g mod log_step_show cfg = 0 \<and> is_main_process cfg")
    case True
    with ts nz s2 gs show ?thesis
      by (simp add: batch_body_def py_mod_def bind_tr_def log_step_def Let_def)
  next
    case False
    with ts nz s2 show ?thesis
      by (auto simp: batch_body_def py_mod_def Let_def)
  qed
qed

lemma sampling_phase_ok:
  assumes "config_ok cfg" and "state_ok cfg s"
    and "succeeded (int_truediv10 env (num_sampling_to_compare_cells cfg))"
  shows "\<exists>s'. snd (sampling_phase env cfg e s) = Inr s' \<and> state_ok cfg s'"
proof -
  from assms(3) obtain n where n: "int_truediv10 env (num_sampling_to_compare_cells cfg) = Inr n"
    by (auto simp: succeeded_iff)
  show ?thesis
  proof (cases "e mod sample_epoch cfg = 0 \<and> is_main_process cfg")
    case True
    with assms(1) obtain ct nt where "encode_data cfg ''cell_types'' = Some ct"
      "encode_data cfg ''numeric_to_tag'' = Some nt"
      by (auto simp: config_ok_def)
    with True assms(1,2) n show ?thesis
      by (simp add: sampling_phase_def sample_def py_mod_def py_getitem_def config_ok_def
          state_ok_def Let_def)
  next
    case False
    with assms(1,2) show ?thesis
      by (auto simp: sampling_phase_def py_mod_def config_ok_def)
  qed
qed

lemma saving_phase_ok:
  assumes "config_ok cfg" and "state_ok cfg s"
  shows "\<exists>s'. snd (saving_phase cfg e s) = Inr s' \<and> state_ok cfg s'"
proof (cases "e mod save_epoch cfg = 0 \<and> is_main_process cfg")
  case True
  with assms(2) obtain em where "ema_model s = Some em" by (auto simp: state_ok_def)
  with True assms show ?thesis
    by (simp add: saving_phase_def save_model_def py_mod_def config_ok_def state_ok_def Let_def)
next
  case False
  with assms show ?thesis
    by (auto simp: saving_phase_def py_mod_def config_ok_def)
qed

lemma lora_phase_ok:
  assumes "config_ok cfg" and "state_ok cfg s"
    and "\<And>p. mkdir env p = None" and "\<And>m. inner_model env m \<noteq> None"
  shows "\<exists>s'. snd (lora_phase env cfg e s) = Inr s' \<and> state_ok cfg s'"
proof (cases "save_lora_function cfg \<and> e mod lora_save_epoch cfg = 0 \<and> is_main_process cfg")
  case True
  from assms(4) [of "model s"] obtain im where "inner_model env (model s) = Some im" by auto
  with True assms(1,2) assms(3) show ?thesis
    by (simp add: lora_phase_def save_lora_model_def py_mod_def config_ok_def Let_def)
next
  case False
  with assms(1,2) show ?thesis
    by (auto simp: lora_phase_def py_mod_def config_ok_def)
qed

lemma train_epoch_ok:
  fixes env :: "('b, 'o, 'd, 't) env"
  assumes c: "config_ok cfg" and s: "state_ok cfg s"
    and d: "succeeded (int_truediv10 env (num_sampling_to_compare_cells cfg))"
    and mk: "\<And>p. mkdir env p = None" and im: "\<And>m. inner_model env m \<noteq> None"
  shows "\<exists>s'. snd (train_epoch env cfg e s) = Inr s' \<and> state_ok cfg s'"
proof -
  let ?s1 = "s\<lparr>model := (model s)\<lparr>training := True\<rparr>\<rparr>"
  from s have s1: "state_ok cfg ?s1" by (simp add: state_ok_def)
  from c have nz: "log_step_show cfg \<noteq> 0" by (simp add: config_ok_def)
  have "\<exists>s'. snd (batch_body env cfg e i t) = Inr s' \<and> state_ok cfg s'"
    if "state_ok cfg t" for i t
    using batch_body_ok [OF nz that] .
  from for_each_invariant [where f = "batch_body env cfg e" and I = "state_ok cfg", OF this s1]
  obtain s2 where
    s2: "snd (for_each (batch_body env cfg e) [0..<dl_len env] ?s1) = Inr s2" "state_ok cfg s2"
    by blast
  from sampling_phase_ok [OF c s2(2) d] obtain s3 where
    s3: "snd (sampling_phase env cfg e s2) = Inr s3" "state_ok cfg s3" by blast
  from saving_phase_ok [OF c s3(2)] obtain s4 where
    s4: "snd (saving_phase cfg e s3 :: (('o, 'd, 't) event, 'o train_state) traced) = Inr s4"
      "state_ok cfg s4" by blast
  from lora_phase_ok [OF c s4(2) mk im] obtain s5 where
    s5: "snd (lora_phase env cfg e s4) = Inr s5" "state_ok cfg s5" by blast
  from s2 s3 s4 s5 show ?thesis
    by (simp add: train_epoch_def snd_bind_tr)
qed

text \<open>With a configuration whose periods are not zero, the data the sampler needs, the
  EMA objects on the main process and collaborators that do not fail, the loop ends
  without an exception.\<close>

lemma train_loop_ok:
  assumes "config_ok cfg" and "state_ok cfg st"
    and "succeeded (int_truediv10 env (num_sampling_to_compare_cells cfg))"
    and "\<And>p. mkdir env p = None" and "\<And>m. inner_model env m \<noteq> None"
  shows "\<exists>st'. snd (train_loop env cfg st) = Inr st' \<and> state_ok cfg st'"
proof -
  have "\<exists>s'. snd (in_epoch x (train_epoch env cfg x s)) = Inr s' \<and> state_ok cfg s'"
    if "state_ok cfg s" for x s
    using train_epoch_ok [OF assms(1) that assms(3,4,5)] by (simp add: in_epoch_snd)
  from for_each_invariant [where f = "\<lambda>epoch s. in_epoch epoch (train_epoch env cfg epoch s)"
      and I = "state_ok cfg", OF this assms(2)]
  show ?thesis by (simp add: train_loop_snd)
qed

lemma demo_run_ok:
  assumes "config_ok cfg" and "state_ok cfg st"
  shows "\<exists>st'. snd (train_loop demo_env cfg st) = Inr st'"
proof -
  have "succeeded (int_truediv10 demo_env (num_sampling_to_compare_cells cfg))"
    and "\<And>p. mkdir demo_env p = None" and "\<And>m. inner_model demo_env m \<noteq> None"
    by (simp_all add: demo_env_def succeeded_def)
  from train_loop_ok [OF assms this] show ?thesis by blast
qed

lemma demo_config_ok: "config_ok demo_cfg"
  by (simp add: config_ok_def demo_cfg_def)

lemma demo_state_ok: "state_ok demo_cfg demo_state"
  by (simp add: state_ok_def demo_state_def)

lemma period_config_ok: "config_ok (period_cfg a b c)"
  by (simp add: config_ok_def period_cfg_def demo_cfg_def)

lemma period_state_ok: "state_ok (period_cfg a b c) demo_state"
  by (simp add: state_ok_def demo_state_def)

lemma worker_config_ok: "config_ok worker_cfg"
  by (simp add: config_ok_def worker_cfg_def demo_cfg_def)

lemma worker_state_ok: "state_ok worker_cfg worker_state"
  by (simp add: state_ok_def worker_cfg_def)

subsection \<open>The phases of the control loop\<close>

lemma period_run_ok: "succeeded (snd (train_loop demo_env (period_cfg a b c) demo_state))"
  using demo_run_ok [OF period_config_ok period_state_ok, of a b c]
  by (auto simp: succeeded_iff)

lemma phases_independent:
  "(fires Sampling 1 (fst (train_loop demo_env (period_cfg a b c) demo_state)) \<longleftrightarrow> a)
   \<and> (fires Saving 1 (fst (train_loop demo_env (period_cfg a b c) demo_state)) \<longleftrightarrow> b)
   \<and> (fires ExportingAdapter 1 (fst (train_loop demo_env (period_cfg a b c) demo_state)) \<longleftrightarrow> c)"
proof -
  from period_run_ok [of a b c] obtain st' where
    "snd (train_loop demo_env (period_cfg a b c) demo_state) = Inr st'"
    by (auto simp: succeeded_iff)
  from control_loop_iff [OF this, of 1] show ?thesis
    by (simp add: period_cfg_def demo_cfg_def demo_state_def)
qed

text \<open>
  Claim C1: in a run of the control loop that ends without an exception, for every epoch
  \<open>e\<close>, Sampling fires in \<open>e\<close> iff \<open>e\<close> lies between the start epoch and the configured
  total, the process is the main one and \<open>e mod sample_epoch = 0\<close>; Saving fires iff the
  same holds with \<open>save_epoch\<close>; ExportingAdapter fires iff the same holds with
  \<open>lora_save_epoch\<close> and a LoRA saver was supplied. The three conditions are independent:
  for each of the eight subsets of the three phases there is a configuration in which
  exactly that subset fires in epoch 1. In a run that an exception cuts short, a phase
  still fires in \<open>e\<close> only under its condition.
\<close>

theorem control_loop_phases:
  "(\<forall>st'. snd (train_loop env cfg st) = Inr st' \<longrightarrow>
      (fires Sampling e (fst (train_loop env cfg st)) \<longleftrightarrow>
         start_epoch st \<le> e \<and> e \<le> epochs cfg \<and> is_main_process cfg \<and> e mod sample_epoch cfg = 0)
    \<and> (fires Saving e (fst (train_loop env cfg st)) \<longleftrightarrow>
         start_epoch st \<le> e \<and> e \<le> epochs cfg \<and> is_main_process cfg \<and> e mod save_epoch cfg = 0)
    \<and> (fires ExportingAdapter e (fst (train_loop env cfg st)) \<longleftrightarrow>
         start_epoch st \<le> e \<and> e \<le> epochs cfg \<and> is_main_process cfg \<and> save_lora_function cfg
         \<and> e mod lora_save_epoch cfg = 0))
   \<and> (\<forall>a b c. \<exists>cfg2.
         succeeded (snd (train_loop demo_env cfg2 demo_state))
         \<and> (fires Sampling 1 (fst (train_loop demo_env cfg2 demo_state)) \<longleftrightarrow> a)
         \<and> (fires Saving 1 (fst (train_loop demo_env cfg2 demo_state)) \<longleftrightarrow> b)
         \<and> (fires ExportingAdapter 1 (fst (train_loop demo_env cfg2 demo_state)) \<longleftrightarrow> c))
   \<and> ((fires Sampling e (fst (train_loop env cfg st)) \<longrightarrow>
          start_epoch st \<le> e \<and> e \<le> epochs cfg \<and> is_main_process cfg \<and> e mod sample_epoch cfg = 0)
      \<and> (fires Saving e (fst (train_loop env cfg st)) \<longrightarrow>
          start_epoch st \<le> e \<and> e \<le> epochs cfg \<and> is_main_process cfg \<and> e mod save_epoch cfg = 0)
      \<and> (fires ExportingAdapter e (fst (train_loop env cfg st)) \<longrightarrow>
          start_epoch st \<le> e \<and> e \<le> epochs cfg \<and> is_main_process cfg \<and> save_lora_function cfg
          \<and> e mod lora_save_epoch cfg = 0))"
proof -
  have A: "\<forall>st'. snd (train_loop env cfg st) = Inr st' \<longrightarrow>
      (fires Sampling e (fst (train_loop env cfg st)) \<longleftrightarrow>
         start_epoch st \<le> e \<and> e \<le> epochs cfg \<and> is_main_process cfg \<and> e mod sample_epoch cfg = 0)
    \<and> (fires Saving e (fst (train_loop env cfg st)) \<longleftrightarrow>
         start_epoch st \<le> e \<and> e \<le> epochs cfg \<and> is_main_process cfg \<and> e mod save_epoch cfg = 0)
    \<and> (fires ExportingAdapter e (fst (train_loop env cfg st)) \<longleftrightarrow>
         start_epoch st \<le> e \<and> e \<le> epochs cfg \<and> is_main_process cfg \<and> save_lora_function cfg
         \<and> e mod lora_save_epoch cfg = 0)"
  proof (intro allI impI)
    fix st'
    assume ok: "snd (train_loop env cfg st) = Inr st'"
    show "(fires Sampling e (fst (train_loop env cfg st)) \<longleftrightarrow>
         start_epoch st \<le> e \<and> e \<le> epochs cfg \<and> is_main_process cfg \<and> e mod sample_epoch cfg = 0)
    \<and> (fires Saving e (fst (train_loop env cfg st)) \<longleftrightarrow>
         start_epoch st \<le> e \<and> e \<le> epochs cfg \<and> is_main_process cfg \<and> e mod save_epoch cfg = 0)
    \<and> (fires ExportingAdapter e (fst (train_loop env cfg st)) \<longleftrightarrow>
         start_epoch st \<le> e \<and> e \<le> epochs cfg \<and> is_main_process cfg \<and> save_lora_function cfg
         \<and> e mod lora_save_epoch cfg = 0)"
      by (rule control_loop_iff [OF ok])
  qed
  have B: "\<forall>a b c. \<exists>cfg2.
         succeeded (snd (train_loop demo_env cfg2 demo_state))
         \<and> (fires Sampling 1 (fst (train_loop demo_env cfg2 demo_state)) \<longleftrightarrow> a)
         \<and> (fires Saving 1 (fst (train_loop demo_env cfg2 demo_state)) \<longleftrightarrow> b)
         \<and> (fires ExportingAdapter 1 (fst (train_loop demo_env cfg2 demo_state)) \<longleftrightarrow> c)"
  proof (intro allI)
    fix a b c
    show "\<exists>cfg2.
         succeeded (snd (train_loop demo_env cfg2 demo_state))
         \<and> (fires Sampling 1 (fst (train_loop demo_env cfg2 demo_state)) \<longleftrightarrow> a)
         \<and> (fires Saving 1 (fst (train_loop demo_env cfg2 demo_state)) \<longleftrightarrow> b)
         \<and> (fires ExportingAdapter 1 (fst (train_loop demo_env cfg2 demo_state)) \<longleftrightarrow> c)"
      using period_run_ok [of a b c] phases_independent [of a b c]
      by (intro exI [of _ "period_cfg a b c"]) simp
  qed
  have C1: "fires Sampling e (fst (train_loop env cfg st)) \<longrightarrow>
          start_epoch st \<le> e \<and> e \<le> epochs cfg \<and> is_main_process cfg \<and> e mod sample_epoch cfg = 0"
    using control_loop_only_if [of Sampling e env cfg st] by simp
  have C2: "fires Saving e (fst (train_loop env cfg st)) \<longrightarrow>
          start_epoch st \<le> e \<and> e \<le> epochs cfg \<and> is_main_process cfg \<and> e mod save_epoch cfg = 0"
    using control_loop_only_if [of Saving e env cfg st] by simp
  have C3: "fires ExportingAdapter e (fst (train_loop env cfg st)) \<longrightarrow>
          start_epoch st \<le> e \<and> e \<le> epochs cfg \<and> is_main_process cfg \<and> save_lora_function cfg
          \<and> e mod lora_save_epoch cfg = 0"
    using control_loop_only_if [of ExportingAdapter e env cfg st] by simp
  show ?thesis
    by (rule conjI [OF A conjI [OF B conjI [OF C1 conjI [OF C2 C3]]]])
qed

theorem control_loop_phases_witness:
  "succeeded (snd (train_loop demo_env demo_cfg demo_state))
   \<and> fires Sampling 1 (fst (train_loop demo_env demo_cfg demo_state))
   \<and> \<not> fires Saving 1 (fst (train_loop demo_env demo_cfg demo_state))
   \<and> \<not> fires ExportingAdapter 1 (fst (train_loop demo_env demo_cfg demo_state))
   \<and> fires Sampling 2 (fst (train_loop demo_env demo_cfg demo_state))
   \<and> fires Saving 2 (fst (train_loop demo_env demo_cfg demo_state))
   \<and> fires ExportingAdapter 2 (fst (train_loop demo_env demo_cfg demo_state))
   \<and> \<not> fires Sampling 3 (fst (train_loop demo_env demo_cfg demo_state))"
proof -
  from demo_run_ok [OF demo_config_ok demo_state_ok] obtain st' where
    ok: "snd (train_loop demo_env demo_cfg demo_state) = Inr st'" by blast
  have vals: "start_epoch demo_state = 1" "epochs demo_cfg = 2" "is_main_process demo_cfg"
    "sample_epoch demo_cfg = 1" "save_epoch demo_cfg = 2" "save_lora_function demo_cfg"
    "lora_save_epoch demo_cfg = 2"
    by (simp_all add: demo_cfg_def demo_state_def)
  from control_loop_phases [of demo_env demo_cfg demo_state 1, THEN conjunct1] ok
  have 1: "fires Sampling 1 (fst (train_loop demo_env demo_cfg demo_state))"
    "\<not> fires Saving 1 (fst (train_loop demo_env demo_cfg demo_state))"
    "\<not> fires ExportingAdapter 1 (fst (train_loop demo_env demo_cfg demo_state))"
    by (simp_all add: vals)
  from control_loop_phases [of demo_env demo_cfg demo_state 2, THEN conjunct1] ok
  have 2: "fires Sampling 2 (fst (train_loop demo_env demo_cfg demo_state))"
    "fires Saving 2 (fst (train_loop demo_env demo_cfg demo_state))"
    "fires ExportingAdapter 2 (fst (train_loop demo_env demo_cfg demo_state))"
    by (simp_all add: vals)
  from control_loop_phases [of demo_env demo_cfg demo_state 3, THEN conjunct1] ok
  have 3: "\<not> fires Sampling 3 (fst (train_loop demo_env demo_cfg demo_state))"
    by (simp add: vals)
  from ok have "succeeded (snd (train_loop demo_env demo_cfg demo_state))"
    by (simp add: succeeded_def)
  with 1 2 3 show ?thesis by blast
qed

subsection \<open>The global step counter\<close>

text \<open>
  Claim C2: in every run of the control loop, whether it ends or is cut short by an
  exception, the values assigned to the global step counter are strictly increasing;
  the value assigned at batch index \<open>i\<close> of epoch \<open>e\<close> is
  \<open>e * batches_per_epoch + i\<close>, with \<open>e\<close> between the start epoch and the configured
  total and \<open>i\<close> counted from 0; a run that ends has assigned exactly these values, for
  every epoch and every batch index in order; and after the body of the batch loop the
  counter holds this value.
\<close>

theorem global_step_formula:
  "sorted_wrt (<) (step_values (map snd (fst (train_loop env cfg st))))
   \<and> (\<forall>e i g. (Some e, TrainStep i g) \<in> set (fst (train_loop env cfg st)) \<longrightarrow>
          g = e * int (dl_len env) + int i \<and> i < dl_len env
          \<and> start_epoch st \<le> e \<and> e \<le> epochs cfg)
   \<and> (\<forall>st'. snd (train_loop env cfg st) = Inr st' \<longrightarrow>
          step_values (map snd (fst (train_loop env cfg st))) =
            concat (map (\<lambda>e. map (\<lambda>i. e * int (dl_len env) + int i) [0..<dl_len env])
                      [start_epoch st..epochs cfg]))
   \<and> (\<forall>e i s s'. snd (batch_body env cfg e i s) = Inr s' \<longrightarrow>
          global_step s' = Some (e * int (dl_len env) + int i))"
proof (intro conjI)
  have "sorted_wrt (<) (run_steps (dl_len env) [start_epoch st..epochs cfg])"
    by (rule run_steps_sorted) simp
  with train_loop_steps [of env cfg st]
  show "sorted_wrt (<) (step_values (map snd (fst (train_loop env cfg st))))"
    by (blast intro: prefix_sorted_wrt)
next
  show "\<forall>e i g. (Some e, TrainStep i g) \<in> set (fst (train_loop env cfg st)) \<longrightarrow>
          g = e * int (dl_len env) + int i \<and> i < dl_len env
          \<and> start_epoch st \<le> e \<and> e \<le> epochs cfg"
  proof (intro allI impI)
    fix e i g
    assume a: "(Some e, TrainStep i g) \<in> set (fst (train_loop env cfg st))"
    from train_loop_events [OF a] obtain s where
      r: "start_epoch st \<le> e" "e \<le> epochs cfg"
      and ev: "TrainStep i g \<in> set (fst (train_epoch env cfg e s))"
      by auto
    from train_epoch_events [OF ev] r
    show "g = e * int (dl_len env) + int i \<and> i < dl_len env
            \<and> start_epoch st \<le> e \<and> e \<le> epochs cfg"
      by simp
  qed
next
  show "\<forall>st'. snd (train_loop env cfg st) = Inr st' \<longrightarrow>
          step_values (map snd (fst (train_loop env cfg st))) =
            concat (map (\<lambda>e. map (\<lambda>i. e * int (dl_len env) + int i) [0..<dl_len env])
                      [start_epoch st..epochs cfg])"
    using train_loop_steps [of env cfg st] by (simp add: run_steps_def)
next
  show "\<forall>e i s s'. snd (batch_body env cfg e i s) = Inr s' \<longrightarrow>
          global_step s' = Some (e * int (dl_len env) + int i)"
    by (intro allI impI) (rule batch_body_global_step)
qed

theorem global_step_formula_witness:
  "succeeded (snd (train_loop demo_env demo_cfg demo_state))
   \<and> step_values (map snd (fst (train_loop demo_env demo_cfg demo_state))) = [2, 3, 4, 5]
   \<and> sorted_wrt (<) (step_values (map snd (fst (train_loop demo_env demo_cfg demo_state))))"
proof -
  from demo_run_ok [OF demo_config_ok demo_state_ok] obtain st' where
    ok: "snd (train_loop demo_env demo_cfg demo_state) = Inr st'" by blast
  have vals: "start_epoch demo_state = 1" "epochs demo_cfg = 2" "dl_len demo_env = 2"
    by (simp_all add: demo_cfg_def demo_state_def demo_env_def)
  have r: "[1..2] = [1, 2::int]" by (simp add: upto_rec1)
  have u: "[0..<2] = [0, Suc 0]" by (simp add: upt_rec)
  from global_step_formula [of demo_env demo_cfg demo_state] ok
  have s: "sorted_wrt (<) (step_values (map snd (fst (train_loop demo_env demo_cfg demo_state))))"
    and v: "step_values (map snd (fst (train_loop demo_env demo_cfg demo_state))) =
            concat (map (\<lambda>e. map (\<lambda>i. e * int (dl_len demo_env) + int i) [0..<dl_len demo_env])
                      [start_epoch demo_state..epochs demo_cfg])"
    by blast+
  from v have "step_values (map snd (fst (train_loop demo_env demo_cfg demo_state))) = [2, 3, 4, 5]"
    by (simp add: vals r u)
  moreover from ok have "succeeded (snd (train_loop demo_env demo_cfg demo_state))"
    by (simp add: succeeded_def)
  ultimately show ?thesis using s by blast
qed

subsection \<open>Side effects of the main process only\<close>

text \<open>
  Claim C8: on a process whose \<open>is_main_process\<close> is false, every event of a run of the
  control loop, entered directly or through \<open>load\<close>, finished or cut short, belongs to
  the preparation or to the training steps: there is no write to the telemetry sink, no
  call of the sampler, of the checkpoint writer or of the adapter exporter in any epoch;
  and \<open>log_step\<close> itself emits nothing there.
\<close>

theorem main_process_only:
  assumes "\<not> is_main_process cfg"
  shows "(\<forall>(t, ev) \<in> set (fst (train_loop env cfg st)).
            phase_of ev = Preparing \<or> phase_of ev = Training)
       \<and> (\<forall>(t, ev) \<in> set (fst (load env cfg st path start_train)).
            phase_of ev = Preparing \<or> phase_of ev = Training)
       \<and> fst (log_step cfg st loss epoch) = []"
proof (intro conjI)
  show "\<forall>(t, ev) \<in> set (fst (train_loop env cfg st)).
            phase_of ev = Preparing \<or> phase_of ev = Training"
    using train_loop_not_main [OF assms] by blast
  show "\<forall>(t, ev) \<in> set (fst (load env cfg st path start_train)).
            phase_of ev = Preparing \<or> phase_of ev = Training"
  proof (cases "restore env cfg st path")
    case (Inl err)
    then show ?thesis by (simp add: load_fst)
  next
    case (Inr st1)
    then show ?thesis
      using train_loop_not_main [OF assms, of _ _ env st1] by (auto simp: load_fst)
  qed
  show "fst (log_step cfg st loss epoch) = []"
    using assms by (simp add: log_step_def)
qed

theorem main_process_only_witness:
  "\<not> is_main_process worker_cfg
   \<and> (None, Prepare) \<in> set (fst (train_loop demo_env worker_cfg worker_state))
   \<and> list_all (\<lambda>(t, ev). phase_of ev = Preparing \<or> phase_of ev = Training)
         (fst (train_loop demo_env worker_cfg worker_state))"
proof -
  have w: "\<not> is_main_process worker_cfg" by (simp add: worker_cfg_def)
  have p: "(None, Prepare) \<in> set (fst (train_loop demo_env worker_cfg worker_state))"
    by (simp add: train_loop_fst)
  from main_process_only [OF w, of demo_env worker_state]
  have "\<forall>(t, ev) \<in> set (fst (train_loop demo_env worker_cfg worker_state)).
          phase_of ev = Preparing \<or> phase_of ev = Training"
    by (rule conjunct1)
  then have "list_all (\<lambda>(t, ev). phase_of ev = Preparing \<or> phase_of ev = Training)
         (fst (train_loop demo_env worker_cfg worker_state))"
    by (simp add: list_all_iff)
  with w p show ?thesis by blast
qed

subsection \<open>Restoring a checkpoint\<close>

lemma map_of_map_keyed:
  "map_of (map (\<lambda>(k, v). (k, g k v)) xs) k = map_option (g k) (map_of xs k)"
  by (induction xs) auto

lemma load_state_dict_params:
  assumes "load_state_dict strict m sd = Inr m'"
  shows "params m' =
           map (\<lambda>(k, v). (k, case map_of sd k of None \<Rightarrow> v | Some v' \<Rightarrow> v')) (params m)"
proof -
  have "(\<lambda>(k, v). case map_of sd k of None \<Rightarrow> (k, v) | Some v' \<Rightarrow> (k, v'))
      = (\<lambda>(k, v). (k, case map_of sd k of None \<Rightarrow> v | Some v' \<Rightarrow> v'))"
    by (auto simp: fun_eq_iff split: option.splits)
  with assms show ?thesis
    by (auto simp: load_state_dict_def split: if_splits)
qed

lemma load_state_dict_lookup:
  assumes "load_state_dict strict m sd = Inr m'"
  shows "map_of (params m') k =
           (case map_of (params m) k of
              None \<Rightarrow> None
            | Some v \<Rightarrow> (case map_of sd k of None \<Rightarrow> Some v | Some v' \<Rightarrow> Some v'))"
  unfolding load_state_dict_params [OF assms] map_of_map_keyed
  by (auto split: option.splits)

lemma load_state_dict_keys:
  assumes "load_state_dict strict m sd = Inr m'"
  shows "keys_of (params m') = keys_of (params m)"
  unfolding load_state_dict_params [OF assms] keys_of_def
  by (induction "params m") (auto simp: case_prod_beta comp_def)

lemma load_state_dict_non_strict:
  assumes "size_mismatches m sd = []"
  shows "\<exists>m'. load_state_dict False m sd = Inr m'"
  using assms by (simp add: load_state_dict_def)

lemma load_state_dict_strict_missing:
  assumes "k \<in> set (keys_of (params m))" and "k \<notin> set (keys_of sd)"
  shows "\<exists>msg. load_state_dict True m sd = Inl (RuntimeError msg)"
proof -
  from assms have "k \<in> set (missing_keys m sd)" by (simp add: missing_keys_def)
  then have "missing_keys m sd \<noteq> []" by auto
  then show ?thesis by (simp add: load_state_dict_def)
qed

lemma map_of_keys_None: "k \<notin> set (keys_of sd) \<Longrightarrow> map_of sd k = None"
  by (simp add: keys_of_def map_of_eq_None_iff)

text \<open>
  Claim C4: take a checkpoint whose model entry lacks a parameter \<open>k\<close> that the trained
  model has and agrees in shape on the others. Restoring the trained model succeeds and
  \<open>k\<close> keeps the value it had, whereas the strict load of an EMA model that has \<open>k\<close>
  from an entry that lacks it raises. When the optimizer accepts the saved state,
  \<open>load\<close> restores the state where no EMA model is restored (not the main process) or
  the EMA entry loads, and on the main process with the EMA entry lacking \<open>k\<close> the
  restoring as a whole raises.
\<close>

theorem load_strictness:
  assumes "files st path = Some ck"
    and "map_of ck ''model'' = Some (StateDict sd)"
    and "map_of ck ''optimizer'' = Some (OptState os)"
    and "map_of ck ''epoch'' = Some (EpochNum ep)"
    and "map_of ck ''ema_model'' = Some (StateDict esd)"
    and "k \<in> set (keys_of (params (model st)))" and "k \<notin> set (keys_of sd)"
    and "size_mismatches (model st) sd = []"
  shows "\<exists>m'. load_state_dict False (model st) sd = Inr m'
           \<and> map_of (params m') k = map_of (params (model st)) k
           \<and> (\<forall>em. k \<in> set (keys_of (params em)) \<and> k \<notin> set (keys_of esd) \<longrightarrow>
                (\<exists>msg. load_state_dict True em esd = Inl (RuntimeError msg)))
           \<and> (optimizer_load_error env (optimizer st) os = None \<longrightarrow>
                (\<not> is_main_process cfg \<longrightarrow>
                   restore env cfg st path =
                     Inr (st\<lparr>model := m', optimizer := os, start_epoch := ep\<rparr>))
                \<and> (\<forall>em em'. is_main_process cfg \<and> ema_model st = Some em
                       \<and> load_state_dict True em esd = Inr em' \<longrightarrow>
                     restore env cfg st path =
                       Inr (st\<lparr>model := m', optimizer := os, start_epoch := ep,
                              ema_model := Some em'\<rparr>))
                \<and> (\<forall>em. is_main_process cfg \<and> ema_model st = Some em
                       \<and> k \<in> set (keys_of (params em)) \<and> k \<notin> set (keys_of esd) \<longrightarrow>
                     (\<exists>msg. restore env cfg st path = Inl (RuntimeError msg))))"
proof -
  from load_state_dict_non_strict [OF assms(8)] obtain m' where
    m': "load_state_dict False (model st) sd = Inr m'" by blast
  from assms(6) have "map_of (params (model st)) k \<noteq> None"
    by (simp add: keys_of_def map_of_eq_None_iff)
  then obtain v where v: "map_of (params (model st)) k = Some v" by blast
  have keep: "map_of (params m') k = map_of (params (model st)) k"
    using load_state_dict_lookup [OF m', of k] map_of_keys_None [OF assms(7)] v by simp
  have strict: "\<exists>msg. load_state_dict True em esd = Inl (RuntimeError msg)"
    if "k \<in> set (keys_of (params em)) \<and> k \<notin> set (keys_of esd)" for em
    using that load_state_dict_strict_missing by blast
  have pre: "ck_state_dict ck ''model'' = Inr sd" "ck_optimizer ck = Inr os" "ck_epoch ck = Inr ep"
    "ck_state_dict ck ''ema_model'' = Inr esd"
    using assms(2-5) by (simp_all add: ck_state_dict_def ck_optimizer_def ck_epoch_def)
  have a: "restore env cfg st path = Inr (st\<lparr>model := m', optimizer := os, start_epoch := ep\<rparr>)"
    if "optimizer_load_error env (optimizer st) os = None" "\<not> is_main_process cfg"
    using that assms(1) pre m' by (simp add: restore_def)
  have b: "restore env cfg st path =
             Inr (st\<lparr>model := m', optimizer := os, start_epoch := ep, ema_model := Some em'\<rparr>)"
    if "optimizer_load_error env (optimizer st) os = None"
      "is_main_process cfg \<and> ema_model st = Some em \<and> load_state_dict True em esd = Inr em'"
    for em em'
    using that assms(1) pre m' by (simp add: restore_def)
  have c: "\<exists>msg. restore env cfg st path = Inl (RuntimeError msg)"
    if "optimizer_load_error env (optimizer st) os = None"
      "is_main_process cfg \<and> ema_model st = Some em
         \<and> k \<in> set (keys_of (params em)) \<and> k \<notin> set (keys_of esd)" for em
  proof -
    from strict [of em] that(2) obtain msg where
      e: "load_state_dict True em esd = Inl (RuntimeError msg)" by blast
    with that assms(1) pre m' have "restore env cfg st path = Inl (RuntimeError msg)"
      by (simp add: restore_def)
    then show ?thesis by blast
  qed
  show ?thesis
  proof (intro exI [of _ m'] conjI)
    show "load_state_dict False (model st) sd = Inr m'" by (rule m')
    show "map_of (params m') k = map_of (params (model st)) k" by (rule keep)
    show "\<forall>em. k \<in> set (keys_of (params em)) \<and> k \<notin> set (keys_of esd) \<longrightarrow>
                (\<exists>msg. load_state_dict True em esd = Inl (RuntimeError msg))"
      using strict by blast
    show "optimizer_load_error env (optimizer st) os = None \<longrightarrow>
                (\<not> is_main_process cfg \<longrightarrow>
                   restore env cfg st path =
                     Inr (st\<lparr>model := m', optimizer := os, start_epoch := ep\<rparr>))
                \<and> (\<forall>em em'. is_main_process cfg \<and> ema_model st = Some em
                       \<and> load_state_dict True em esd = Inr em' \<longrightarrow>
                     restore env cfg st path =
                       Inr (st\<lparr>model := m', optimizer := os, start_epoch := ep,
                              ema_model := Some em'\<rparr>))
                \<and> (\<forall>em. is_main_process cfg \<and> ema_model st = Some em
                       \<and> k \<in> set (keys_of (params em)) \<and> k \<notin> set (keys_of esd) \<longrightarrow>
                     (\<exists>msg. restore env cfg st path = Inl (RuntimeError msg)))"
    proof (intro impI conjI allI)
      assume o: "optimizer_load_error env (optimizer st) os = None"
      show "restore env cfg st path = Inr (st\<lparr>model := m', optimizer := os, start_epoch := ep\<rparr>)"
        if "\<not> is_main_process cfg"
        using a [OF o that] .
      show "restore env cfg st path =
              Inr (st\<lparr>model := m', optimizer := os, start_epoch := ep, ema_model := Some em'\<rparr>)"
        if "is_main_process cfg \<and> ema_model st = Some em \<and> load_state_dict True em esd = Inr em'"
        for em em'
        using b [OF o that] .
      show "\<exists>msg. restore env cfg st path = Inl (RuntimeError msg)"
        if "is_main_process cfg \<and> ema_model st = Some em
              \<and> k \<in> set (keys_of (params em)) \<and> k \<notin> set (keys_of esd)" for em
        using c [OF o that] .
    qed
  qed
qed

theorem load_strictness_witness:
  "files grown_state ''epoch_2_m.pt'' = Some demo_ckpt
   \<and> ''c'' \<in> set (keys_of (params (model grown_state)))
   \<and> ''c'' \<notin> set (keys_of [(''w'', [1, 2]), (''b'', [0])])
   \<and> optimizer_load_error demo_env (optimizer grown_state) 0 = None
   \<and> (\<exists>m'. load_state_dict False (model grown_state) [(''w'', [1, 2]), (''b'', [0])] = Inr m'
          \<and> map_of (params m') ''c'' = Some [9]
          \<and> restore demo_env worker_cfg grown_state ''epoch_2_m.pt'' =
              Inr (grown_state\<lparr>model := m', optimizer := 0, start_epoch := 2\<rparr>))
   \<and> (\<exists>msg. restore demo_env demo_cfg grown_state ''epoch_2_m.pt'' = Inl (RuntimeError msg))"
proof -
  let ?sd = "[(''w'', [1, 2]), (''b'', [0])] :: state_dict"
  have f: "files grown_state ''epoch_2_m.pt'' = Some demo_ckpt"
    by (simp add: grown_state_def saved_state_def)
  have c1: "map_of demo_ckpt ''model'' = Some (StateDict ?sd)"
    and c2: "map_of demo_ckpt ''optimizer'' = Some (OptState 0)"
    and c3: "map_of demo_ckpt ''epoch'' = Some (EpochNum 2)"
    and c4: "map_of demo_ckpt ''ema_model'' = Some (StateDict ?sd)"
    by (simp_all add: demo_ckpt_def)
  have k1: "''c'' \<in> set (keys_of (params (model grown_state)))"
    by (simp add: grown_state_def grown_model_def keys_of_def)
  have k2: "''c'' \<notin> set (keys_of ?sd)" by (simp add: keys_of_def)
  have sz: "size_mismatches (model grown_state) ?sd = []"
    by (simp add: size_mismatches_def grown_state_def grown_model_def)
  have w: "\<not> is_main_process worker_cfg" by (simp add: worker_cfg_def)
  have d: "is_main_process demo_cfg" by (simp add: demo_cfg_def)
  have o: "optimizer_load_error demo_env (optimizer grown_state) 0 = None"
    by (simp add: demo_env_def)
  have em: "ema_model grown_state = Some (grown_model\<lparr>training := False, requires_grad := False\<rparr>)"
    by (simp add: grown_state_def)
  have k3: "''c'' \<in> set (keys_of (params (grown_model\<lparr>training := False, requires_grad := False\<rparr>)))"
    by (simp add: grown_model_def keys_of_def)
  have v: "map_of (params (model grown_state)) ''c'' = Some [9]"
    by (simp add: grown_state_def grown_model_def)
  from load_strictness [OF f c1 c2 c3 c4 k1 k2 sz, where env = demo_env and cfg = worker_cfg] w o
  obtain m' where
    m: "load_state_dict False (model grown_state) ?sd = Inr m'"
    and kp: "map_of (params m') ''c'' = map_of (params (model grown_state)) ''c''"
    and r: "restore demo_env worker_cfg grown_state ''epoch_2_m.pt'' =
              Inr (grown_state\<lparr>model := m', optimizer := 0, start_epoch := 2\<rparr>)"
    by blast
  from load_strictness [OF f c1 c2 c3 c4 k1 k2 sz, where env = demo_env and cfg = demo_cfg]
    d o em k3 k2
  obtain msg where
    e: "restore demo_env demo_cfg grown_state ''epoch_2_m.pt'' = Inl (RuntimeError msg)"
    by blast
  from f k1 k2 o m kp v r e show ?thesis by auto
qed

lemma train_loop_epochs:
  assumes ok: "snd (train_loop env cfg st) = Inr st'"
  shows "(Some e, ModelTrain) \<in> set (fst (train_loop env cfg st)) \<longleftrightarrow>
           start_epoch st \<le> e \<and> e \<le> epochs cfg"
proof
  assume "(Some e, ModelTrain) \<in> set (fst (train_loop env cfg st))"
  from train_loop_events [OF this] show "start_epoch st \<le> e \<and> e \<le> epochs cfg" by auto
next
  assume r: "start_epoch st \<le> e \<and> e \<le> epochs cfg"
  with train_loop_success [OF ok, of e] obtain s1 s2 where
    s: "snd (train_epoch env cfg e s1) = Inr s2"
    and sub: "Pair (Some e) ` set (fst (train_epoch env cfg e s1)) \<subseteq> set (fst (train_loop env cfg st))"
    by blast
  from train_epoch_success [OF s] have "ModelTrain \<in> set (fst (train_epoch env cfg e s1))"
    by auto
  with sub show "(Some e, ModelTrain) \<in> set (fst (train_loop env cfg st))" by blast
qed

lemma restore_Inr:
  assumes "restore env cfg st path = Inr st1"
  shows "\<exists>ck sd. files st path = Some ck
           \<and> map_of ck ''model'' = Some (StateDict sd)
           \<and> load_state_dict False (model st) sd = Inr (model st1)
           \<and> map_of ck ''optimizer'' = Some (OptState (optimizer st1))
           \<and> map_of ck ''epoch'' = Some (EpochNum (start_epoch st1))"
proof -
  from assms obtain ck where ck: "files st path = Some ck"
    by (cases "files st path") (simp_all add: restore_def)
  from assms ck obtain sd where sd: "ck_state_dict ck ''model'' = Inr sd"
    by (cases "ck_state_dict ck ''model''") (simp_all add: restore_def)
  from assms ck sd obtain m' where m': "load_state_dict False (model st) sd = Inr m'"
    by (cases "load_state_dict False (model st) sd") (simp_all add: restore_def)
  from assms ck sd m' obtain os where os: "ck_optimizer ck = Inr os"
    by (cases "ck_optimizer ck") (simp_all add: restore_def)
  from assms ck sd m' os have ol: "optimizer_load_error env (optimizer st) os = None"
    by (cases "optimizer_load_error env (optimizer st) os") (simp_all add: restore_def)
  from assms ck sd m' os ol obtain ep where ep: "ck_epoch ck = Inr ep"
    by (cases "ck_epoch ck") (simp_all add: restore_def)
  from assms ck sd m' os ol ep
  have st1: "model st1 = m' \<and> optimizer st1 = os \<and> start_epoch st1 = ep"
    by (auto simp: restore_def Let_def split: if_splits option.splits sum.splits)
  from sd have "map_of ck ''model'' = Some (StateDict sd)"
    by (auto simp: ck_state_dict_def split: option.splits ckval.splits)
  moreover from os have "map_of ck ''optimizer'' = Some (OptState os)"
    by (auto simp: ck_optimizer_def split: option.splits ckval.splits)
  moreover from ep have "map_of ck ''epoch'' = Some (EpochNum ep)"
    by (auto simp: ck_epoch_def split: option.splits ckval.splits)
  ultimately show ?thesis using ck m' st1 by auto
qed

text \<open>
  Claim C7: \<open>load(path, start_train)\<close> raises what the restoring raises, without running
  an epoch. Otherwise the trained model holds the checkpoint's value for every parameter
  that the checkpoint has (non-strict load), the optimizer state is the checkpoint's and
  the starting epoch is the epoch number stored in the checkpoint; with the flag true the
  call is the control loop from that state, whose epochs run from the restored epoch to
  the configured total; with the flag false it returns the restored state without
  running an epoch.
\<close>

theorem load_resume:
  "(\<forall>err. restore env cfg st path = Inl err \<longrightarrow> load env cfg st path start_train = ([], Inl err))
   \<and> (\<forall>st1. restore env cfg st path = Inr st1 \<longrightarrow>
         (\<exists>ck sd. files st path = Some ck
            \<and> map_of ck ''model'' = Some (StateDict sd)
            \<and> load_state_dict False (model st) sd = Inr (model st1)
            \<and> (\<forall>k. map_of (params (model st1)) k =
                  (case map_of (params (model st)) k of
                     None \<Rightarrow> None
                   | Some v \<Rightarrow> (case map_of sd k of None \<Rightarrow> Some v | Some v' \<Rightarrow> Some v')))
            \<and> map_of ck ''optimizer'' = Some (OptState (optimizer st1))
            \<and> map_of ck ''epoch'' = Some (EpochNum (start_epoch st1)))
         \<and> load env cfg st path True = train_loop env cfg st1
         \<and> load env cfg st path False = ([], Inr st1)
         \<and> (\<forall>e ev. (Some e, ev) \<in> set (fst (load env cfg st path True)) \<longrightarrow>
               start_epoch st1 \<le> e \<and> e \<le> epochs cfg)
         \<and> (\<forall>st' e. snd (load env cfg st path True) = Inr st' \<longrightarrow>
               ((Some e, ModelTrain) \<in> set (fst (load env cfg st path True)) \<longleftrightarrow>
                  start_epoch st1 \<le> e \<and> e \<le> epochs cfg)))"
proof (intro conjI allI impI)
  fix err
  assume "restore env cfg st path = Inl err"
  then show "load env cfg st path start_train = ([], Inl err)" by (simp add: load_def)
next
  fix st1
  assume r: "restore env cfg st path = Inr st1"
  from restore_Inr [OF r] obtain ck sd where
    a: "files st path = Some ck" "map_of ck ''model'' = Some (StateDict sd)"
      "load_state_dict False (model st) sd = Inr (model st1)"
      "map_of ck ''optimizer'' = Some (OptState (optimizer st1))"
      "map_of ck ''epoch'' = Some (EpochNum (start_epoch st1))"
    by blast
  have "\<forall>k. map_of (params (model st1)) k =
                  (case map_of (params (model st)) k of
                     None \<Rightarrow> None
                   | Some v \<Rightarrow> (case map_of sd k of None \<Rightarrow> Some v | Some v' \<Rightarrow> Some v'))"
    using load_state_dict_lookup [OF a(3)] by blast
  with a show "\<exists>ck sd. files st path = Some ck
            \<and> map_of ck ''model'' = Some (StateDict sd)
            \<and> load_state_dict False (model st) sd = Inr (model st1)
            \<and> (\<forall>k. map_of (params (model st1)) k =
                  (case map_of (params (model st)) k of
                     None \<Rightarrow> None
                   | Some v \<Rightarrow> (case map_of sd k of None \<Rightarrow> Some v | Some v' \<Rightarrow> Some v')))
            \<and> map_of ck ''optimizer'' = Some (OptState (optimizer st1))
            \<and> map_of ck ''epoch'' = Some (EpochNum (start_epoch st1))"
    by blast
  show t: "load env cfg st path True = train_loop env cfg st1"
    using r by (simp add: load_def)
  show "load env cfg st path False = ([], Inr st1)"
    using r by (simp add: load_def)
  show "start_epoch st1 \<le> e" and "e \<le> epochs cfg"
    if "(Some e, ev) \<in> set (fst (load env cfg st path True))" for e ev
    using train_loop_events [of "Some e" ev env cfg st1] that unfolding t by auto
  show "(Some e, ModelTrain) \<in> set (fst (load env cfg st path True)) \<longleftrightarrow>
                  start_epoch st1 \<le> e \<and> e \<le> epochs cfg"
    if "snd (load env cfg st path True) = Inr st'" for st' e
    using train_loop_epochs [of env cfg st1 st' e] that unfolding t by simp
qed

theorem load_resume_witness:
  "restore demo_env demo_cfg saved_state ''epoch_2_m.pt'' = Inr (saved_state\<lparr>start_epoch := 2\<rparr>)
   \<and> load demo_env demo_cfg saved_state ''epoch_2_m.pt'' False
        = ([], Inr (saved_state\<lparr>start_epoch := 2\<rparr>))
   \<and> load demo_env demo_cfg saved_state ''epoch_2_m.pt'' True
        = train_loop demo_env demo_cfg (saved_state\<lparr>start_epoch := 2\<rparr>)
   \<and> succeeded (snd (load demo_env demo_cfg saved_state ''epoch_2_m.pt'' True))
   \<and> (Some 2, ModelTrain) \<in> set (fst (load demo_env demo_cfg saved_state ''epoch_2_m.pt'' True))
   \<and> (Some 1, ModelTrain) \<notin> set (fst (load demo_env demo_cfg saved_state ''epoch_2_m.pt'' True))"
proof -
  let ?st1 = "saved_state\<lparr>start_epoch := 2\<rparr>"
  have r: "restore demo_env demo_cfg saved_state ''epoch_2_m.pt'' = Inr ?st1"
    by (simp add: restore_def saved_state_def demo_state_def demo_model_def demo_ckpt_def
        demo_cfg_def demo_env_def ck_state_dict_def ck_optimizer_def ck_epoch_def load_state_dict_def
        size_mismatches_def missing_keys_def unexpected_keys_def keys_of_def)
  from load_resume [where env = demo_env and cfg = demo_cfg and st = saved_state
      and path = "''epoch_2_m.pt''" and start_train = True] r
  have f: "load demo_env demo_cfg saved_state ''epoch_2_m.pt'' False = ([], Inr ?st1)"
    and t: "load demo_env demo_cfg saved_state ''epoch_2_m.pt'' True
              = train_loop demo_env demo_cfg ?st1"
    and e: "\<And>st' e. snd (load demo_env demo_cfg saved_state ''epoch_2_m.pt'' True) = Inr st' \<Longrightarrow>
               ((Some e, ModelTrain) \<in> set (fst (load demo_env demo_cfg saved_state ''epoch_2_m.pt'' True))
                \<longleftrightarrow> start_epoch ?st1 \<le> e \<and> e \<le> epochs demo_cfg)"
    by blast+
  have "state_ok demo_cfg ?st1"
    by (simp add: state_ok_def saved_state_def demo_state_def)
  from demo_run_ok [OF demo_config_ok this] obtain st' where
    ok: "snd (load demo_env demo_cfg saved_state ''epoch_2_m.pt'' True) = Inr st'"
    unfolding t by blast
  have ep: "epochs demo_cfg = 2" by (simp add: demo_cfg_def)
  from e [OF ok, of 2] e [OF ok, of 1] ep
  have "(Some 2, ModelTrain) \<in> set (fst (load demo_env demo_cfg saved_state ''epoch_2_m.pt'' True))"
    and "(Some 1, ModelTrain) \<notin> set (fst (load demo_env demo_cfg saved_state ''epoch_2_m.pt'' True))"
    by simp_all
  moreover from ok have "succeeded (snd (load demo_env demo_cfg saved_state ''epoch_2_m.pt'' True))"
    by (simp add: succeeded_def)
  ultimately show ?thesis using r f t by blast
qed

end
